theory Spec2Isabelle
  imports Main "HOL-Library.Word" "HOL-Library.Sublist"
begin

section \<open>The EBS storage backend of volplugin\<close>

text \<open>
  A shallow embedding of \<^verbatim>\<open>storage/backend/ebs\<close>: the driver (\<^verbatim>\<open>ebs.go\<close>), its device
  helpers and its AWS helpers. Go strings are byte strings and become \<^typ>\<open>string\<close>;
  \<^verbatim>\<open>uint64\<close> and \<^verbatim>\<open>int64\<close> become \<^typ>\<open>64 word\<close>; a Go \<^verbatim>\<open>error\<close> is a value of the
  datatype \<open>error\<close>, a \<^verbatim>\<open>nil\<close> error is \<^term>\<open>None\<close>, and a function returning
  \<^verbatim>\<open>(T, error)\<close> returns a sum with the error on the left.
\<close>

subsection \<open>Errors\<close>

text \<open>
  One constructor per way the package builds an error: \<^verbatim>\<open>errored.Errorf\<close> and
  \<^verbatim>\<open>fmt.Errorf\<close> with a constant message, and with a number, a string or an error as the
  argument of the format; the package's four error variables; an \<^verbatim>\<open>awserr.Error\<close>
  with its \<^verbatim>\<open>Code()\<close>; a \<^verbatim>\<open>syscall.Errno\<close>; any other error of a callee, by its text;
  \<^verbatim>\<open>errors.MountFailed\<close> of volplugin; and \<^verbatim>\<open>Combine\<close> of the errored package.
\<close>

datatype error =
    Errorf string
  | ErrorfN string nat
  | ErrorfS string string
  | ErrorfE string error
  | errNilService
  | errNilConfig
  | errTimeout
  | errNotExists
  | AwsErr string
  | Errno nat
  | OtherErr string
  | MountFailed
  | Combine error error

subsection \<open>Size validation\<close>

definition gigabyteAsBytes :: "64 word" where
  "gigabyteAsBytes = 1024 * 1024 * 1024"

text \<open>
  \<^verbatim>\<open>getVolumeSizeInGB(size uint64) (int64, error)\<close>. The conversion \<^verbatim>\<open>int64(finalSize)\<close>
  keeps the 64 bits; \<^term>\<open>sint\<close> reads the result as the \<^verbatim>\<open>int64\<close> it is.
\<close>

definition getVolumeSizeInGB :: "64 word \<Rightarrow> error + 64 word" where
  "getVolumeSizeInGB sz =
     (if sz < gigabyteAsBytes then Inl (Errorf ''the minimum volume size is 1 GB'')
      else if sz mod gigabyteAsBytes \<noteq> 0
        then Inl (Errorf ''volume size can only be provided as whole gigabytes'')
      else (let finalSize = sz div gigabyteAsBytes in Inr finalSize))"

subsection \<open>Device allocation\<close>

text \<open>
  \<^verbatim>\<open>ec2.InstanceBlockDeviceMapping\<close>, with the two fields the package reads. Both are
  pointers in the SDK, set in every mapping that \<^verbatim>\<open>DescribeInstances\<close> returns; the model
  holds the strings they point to.
\<close>

record InstanceBlockDeviceMapping =
  DeviceName :: string
  Ebs_VolumeId :: string

text \<open>
  The inner loop of \<^verbatim>\<open>findFreeBlockDevice\<close>: \<^verbatim>\<open>usable\<close> starts true and becomes false at
  the first mapping whose device name is \<^verbatim>\<open>blockDev\<close>.
\<close>

fun usable :: "string \<Rightarrow> InstanceBlockDeviceMapping list \<Rightarrow> bool" where
  "usable blockDev [] = True"
| "usable blockDev (mapping # mappings) =
     (if blockDev = DeviceName mapping then False else usable blockDev mappings)"

text \<open>\<^verbatim>\<open>fmt.Sprintf("/dev/xvd%c", dev)\<close> for a \<^verbatim>\<open>uint8\<close> below 128: the byte itself.\<close>

definition blockDevOf :: "nat \<Rightarrow> string" where
  "blockDevOf dev = ''/dev/xvd'' @ [char_of dev]"

text \<open>
  The outer loop \<^verbatim>\<open>for dev = 'a'; dev < 'z'; dev++\<close>, with \<^verbatim>\<open>dev\<close> as the byte's number
  (\<^verbatim>\<open>'a'\<close> is 97, \<^verbatim>\<open>'z'\<close> is 122; the counter never reaches 256).
\<close>

function findFreeBlockDeviceFrom :: "nat \<Rightarrow> InstanceBlockDeviceMapping list \<Rightarrow> error + string" where
  "findFreeBlockDeviceFrom dev mappings =
     (if dev < 122 then
        (let blockDev = blockDevOf dev in
         if usable blockDev mappings then Inr blockDev
         else findFreeBlockDeviceFrom (dev + 1) mappings)
      else Inl (Errorf ''failed to find free block device''))"
  by pat_completeness auto
termination
  by (relation "measure (\<lambda>(dev, mappings). 122 - dev)") auto

definition findFreeBlockDevice :: "InstanceBlockDeviceMapping list \<Rightarrow> error + string" where
  "findFreeBlockDevice mappings = findFreeBlockDeviceFrom 97 mappings"

text \<open>\<^verbatim>\<open>findBlockVolumeBlockDevice\<close>: the device of the first mapping of the volume.\<close>

fun findBlockVolumeBlockDevice :: "InstanceBlockDeviceMapping list \<Rightarrow> string \<Rightarrow> error + string" where
  "findBlockVolumeBlockDevice [] volume = Inl (Errorf ''failed to find volume in attached volumes'')"
| "findBlockVolumeBlockDevice (mapping # mappings) volume =
     (if volume = Ebs_VolumeId mapping then Inr (DeviceName mapping)
      else findBlockVolumeBlockDevice mappings volume)"

subsection \<open>The filesystem command\<close>

text \<open>
  \<^verbatim>\<open>templateFSCmd\<close>: the loop over \<^verbatim>\<open>idx\<close>, which rewrites \<^verbatim>\<open>fscmd\<close> while it scans it.
  After a substitution the scan goes on at \<^verbatim>\<open>idx + 1\<close> of the new string, inside the
  device path just written, so a device path with a \<^verbatim>\<open>%\<close> can keep the loop running for
  ever: the loop is a partial function, and \<^term>\<open>None\<close> is a run that never returns.
  The \<^verbatim>\<open>switch\<close> sets \<^verbatim>\<open>lhs\<close> and \<^verbatim>\<open>rhs\<close> in its three cases.
\<close>

partial_function (option) templateFSCmdFrom :: "nat \<Rightarrow> string \<Rightarrow> string \<Rightarrow> string option" where
  "templateFSCmdFrom idx fscmd devicePath =
     (if idx < length fscmd then
        (if fscmd ! idx = CHR ''%'' then
           (if idx < length fscmd - 1 \<and> fscmd ! (idx + 1) = CHR ''%''
            then templateFSCmdFrom (idx + 1 + 1) fscmd devicePath
            else (let lhs = (if idx = 0 then [] else if idx = length fscmd - 1 then take idx fscmd
                             else take idx fscmd);
                      rhs = (if idx = 0 then drop 1 fscmd else if idx = length fscmd - 1 then []
                             else drop (idx + 1) fscmd)
                  in templateFSCmdFrom (idx + 1) (lhs @ devicePath @ rhs) devicePath))
         else templateFSCmdFrom (idx + 1) fscmd devicePath)
      else Some fscmd)"

declare templateFSCmdFrom.simps [code]

definition templateFSCmd :: "string \<Rightarrow> string \<Rightarrow> string option" where
  "templateFSCmd fscmd devicePath = templateFSCmdFrom 0 fscmd devicePath"

text \<open>
  What the loop computes, as a recursion over the template: a \<^verbatim>\<open>%\<close> followed by a second
  \<^verbatim>\<open>%\<close> is a pair, and both characters stay; any other \<^verbatim>\<open>%\<close> becomes the device path.
\<close>

fun expandTemplate :: "string \<Rightarrow> string \<Rightarrow> string" where
  "expandTemplate devicePath [] = []"
| "expandTemplate devicePath [c] = (if c = CHR ''%'' then devicePath else [c])"
| "expandTemplate devicePath (c # d # cs) =
     (if c = CHR ''%'' then
        (if d = CHR ''%'' then c # d # expandTemplate devicePath cs
         else devicePath @ expandTemplate devicePath (d # cs))
      else c # expandTemplate devicePath (d # cs))"

text \<open>The measure of the refinement proof: every \<^verbatim>\<open>%\<close> left to scan weighs a device path.\<close>

definition weight :: "string \<Rightarrow> string \<Rightarrow> nat" where
  "weight dev r = (length dev + 1) * count_list r (CHR ''%'') + length r"

subsection \<open>Names and paths\<close>

text \<open>
  The functions of Go's \<^verbatim>\<open>strings\<close> package that the driver calls: \<^verbatim>\<open>SplitN(s, sep, 2)\<close>
  for a separator of one byte (the string itself when it has no separator, else the part
  before the first separator and the rest), \<^verbatim>\<open>Contains\<close> and \<^verbatim>\<open>Join\<close>.
\<close>

definition strings_SplitN2 :: "string \<Rightarrow> char \<Rightarrow> string list" where
  "strings_SplitN2 s sep =
     (if sep \<in> set s then [takeWhile (\<lambda>c. c \<noteq> sep) s, drop 1 (dropWhile (\<lambda>c. c \<noteq> sep) s)]
      else [s])"

fun strings_Contains :: "string \<Rightarrow> string \<Rightarrow> bool" where
  "strings_Contains [] substr = (substr = [])"
| "strings_Contains (c # cs) substr = (prefix substr (c # cs) \<or> strings_Contains cs substr)"

fun strings_Join :: "string list \<Rightarrow> string \<Rightarrow> string" where
  "strings_Join [] sep = []"
| "strings_Join [a] sep = a"
| "strings_Join (a # b # bs) sep = a @ sep @ strings_Join (b # bs) sep"

definition internalName :: "string \<Rightarrow> error + string" where
  "internalName s =
     (let strs = strings_SplitN2 s (CHR ''/'') in
      if length strs \<noteq> 2 then Inl (ErrorfS ''Invalid volume name %q, must be two parts'' s)
      else if strings_Contains (strs ! 0) ''.''
        then Inl (ErrorfS (''Invalid policy name %q, cannot contain '.'' @ [CHR 0x27]) (strs ! 0))
      else if strings_Contains (strs ! 1) ''/''
        then Inl (ErrorfS (''Invalid volume name %q, cannot contain '/'' @ [CHR 0x27]) (strs ! 1))
      else Inr (strings_Join strs ''.''))"

text \<open>
  Go's \<^verbatim>\<open>path/filepath\<close> on Unix. It is the standard library, not code of the driver, and
  is modelled by what it computes on the elements of a path. \<^verbatim>\<open>Clean\<close> drops empty
  elements and \<^verbatim>\<open>.\<close>, lets \<^verbatim>\<open>..\<close> remove the element before it, drops a \<^verbatim>\<open>..\<close> at the root
  and keeps a leading \<^verbatim>\<open>..\<close> of a relative path; \<open>cleanParts\<close> is whether the path is rooted
  and the elements that remain.
\<close>

fun splitOn :: "char \<Rightarrow> string \<Rightarrow> string list" where
  "splitOn sep [] = [] # []"
| "splitOn sep (c # cs) =
     (if c = sep then [] # splitOn sep cs
      else (case splitOn sep cs of [] \<Rightarrow> [c] # [] | x # xs \<Rightarrow> (c # x) # xs))"

definition cleanStep :: "bool \<Rightarrow> string list \<Rightarrow> string \<Rightarrow> string list" where
  "cleanStep rooted stack e =
     (if e = [] \<or> e = ''.'' then stack
      else if e = ''..'' then
        (case stack of
           [] \<Rightarrow> if rooted then [] else [''..'']
         | t # ts \<Rightarrow> if t = ''..'' then ''..'' # stack else ts)
      else e # stack)"

definition cleanParts :: "string \<Rightarrow> bool \<times> string list" where
  "cleanParts path =
     (let rooted = (case path of [] \<Rightarrow> False | c # cs \<Rightarrow> c = CHR ''/'') in
      (rooted, rev (foldl (cleanStep rooted) [] (splitOn (CHR ''/'') path))))"

definition renderPath :: "bool \<times> string list \<Rightarrow> string" where
  "renderPath p =
     (case p of (rooted, parts) \<Rightarrow>
        if rooted then CHR ''/'' # strings_Join parts ''/''
        else if parts = [] then ''.'' else strings_Join parts ''/'')"

definition filepath_Clean :: "string \<Rightarrow> string" where
  "filepath_Clean path = renderPath (cleanParts path)"

text \<open>\<^verbatim>\<open>filepath.Join\<close> of two elements: the empty ones are ignored, the rest is cleaned.\<close>

definition filepath_Join :: "string \<Rightarrow> string \<Rightarrow> string" where
  "filepath_Join a b =
     (if a \<noteq> [] then filepath_Clean (a @ ''/'' @ b)
      else if b \<noteq> [] then filepath_Clean b
      else [])"

text \<open>
  \<^verbatim>\<open>filepath.Rel\<close>: both paths are cleaned; equal paths give \<^verbatim>\<open>.\<close>; a rooted and a relative
  path cannot be related; otherwise the common leading elements are skipped, it is an error
  when the first element of the base that differs is \<^verbatim>\<open>..\<close>, and the result is one \<^verbatim>\<open>..\<close>
  for every element left of the base, followed by the elements left of the target.
\<close>

fun skipCommon :: "string list \<Rightarrow> string list \<Rightarrow> string list \<times> string list" where
  "skipCommon (b # bs) (t # ts) = (if b = t then skipCommon bs ts else (b # bs, t # ts))"
| "skipCommon bs ts = (bs, ts)"

definition filepath_Rel :: "string \<Rightarrow> string \<Rightarrow> error + string" where
  "filepath_Rel basepath targpath =
     (let base = cleanParts basepath; targ = cleanParts targpath in
      if targ = base then Inr ''.''
      else if fst base \<noteq> fst targ
        then Inl (ErrorfS ''Rel: can't make target relative to base'' targpath)
      else (case skipCommon (snd base) (snd targ) of
              (bs, ts) \<Rightarrow>
                if bs \<noteq> [] \<and> ts \<noteq> [] \<and> hd bs = ''..''
                then Inl (ErrorfS ''Rel: can't make target relative to base'' targpath)
                else Inr (strings_Join (replicate (length bs) ''..'' @ ts) ''/'')))"

subsection \<open>The remote service and the host\<close>

text \<open>
  The structures of the EC2 SDK, with the fields the package reads. The package dereferences
  their pointer fields without a check; the model holds the values.
\<close>

record VolumeAttachment =
  Attachment_VolumeId :: string
  Attachment_State :: string

record Volume =
  VolumeId :: string
  State :: string
  Attachments :: "VolumeAttachment list"

record TagDescription =
  ResourceId :: string
  ResourceType :: string
  Key :: string
  Value :: string

record Instance =
  BlockDeviceMappings :: "InstanceBlockDeviceMapping list"

record Reservation =
  Instances :: "Instance list"

definition VolumeStateAvailable :: string where "VolumeStateAvailable = ''available''"
definition VolumeStateDeleted :: string where "VolumeStateDeleted = ''deleted''"
definition VolumeAttachmentStateAttached :: string where "VolumeAttachmentStateAttached = ''attached''"
definition VolumeAttachmentStateDetached :: string where "VolumeAttachmentStateDetached = ''detached''"

type_synonym Duration = int

text \<open>
  Everything the package does to the world outside is an event of a trace, in the order
  the code does it: the calls of the EC2 API and of the instance metadata, the calls of the
  OS, the timers and the log.
\<close>

datatype event =
    API_GetMetadata string
  | API_CreateVolume string "64 word" string "64 word option"
  | API_DeleteVolume string
  | API_AttachVolume string string string
  | API_DetachVolume string string bool string
  | API_DescribeVolumes "string list"
  | API_DescribeInstances "string list"
  | API_CreateTags "string list" "(string \<times> string) list"
  | API_DeleteTags "string list" "(string \<times> string) list"
  | API_DescribeTags "(string \<times> string list) list" nat
  | OS_Stat string
  | OS_Remove string
  | OS_Unmount string
  | OS_Exec "string list" Duration
  | TimerStarted Duration
  | TimeAfter nat
  | Sleep nat
  | LogError error

text \<open>
  The EC2 client \<^verbatim>\<open>svc\<close>: each operation answers from the trace so far, whose last event
  is the call itself with its input. \<^verbatim>\<open>ec2.New\<close> never returns nil, so the model takes
  the client as a value and has no branch for \<^verbatim>\<open>svc == nil\<close>. An operation of the SDK
  returns an output structure and an error; where the package reads the output only when the
  error is nil the answer is a sum, and for \<^verbatim>\<open>DescribeTags\<close>, whose output it reads before
  the error, a pair.
\<close>

record EC2 =
  CreateVolume :: "event list \<Rightarrow> error + Volume"
  DeleteVolume :: "event list \<Rightarrow> error option"
  AttachVolume :: "event list \<Rightarrow> error + VolumeAttachment"
  DetachVolume :: "event list \<Rightarrow> error + VolumeAttachment"
  DescribeVolumes :: "event list \<Rightarrow> error + Volume list"
  DescribeInstances :: "event list \<Rightarrow> error + Reservation list"
  CreateTags :: "event list \<Rightarrow> error option"
  DeleteTags :: "event list \<Rightarrow> error option"
  DescribeTags :: "event list \<Rightarrow> TagDescription list \<times> error option"

text \<open>
  The host: the instance metadata, the OS calls, the command runner and the clock.
  \<open>pollsBeforeTimeout\<close> is the race of the two channels of a poll loop: the goroutine that
  sleeps for the timeout and then sends on \<^verbatim>\<open>c\<close>, against \<^verbatim>\<open>time.After\<close>; its value, read
  when the timer starts, is how many times the poll branch of the \<^verbatim>\<open>select\<close> runs before
  the branch \<^verbatim>\<open>case <-c\<close> does. The timeout always fires, so the number is finite.
\<close>

record host =
  GetMetadata :: "event list \<Rightarrow> error + string"
  os_Stat :: "event list \<Rightarrow> error option"
  os_Remove :: "event list \<Rightarrow> error option"
  unix_Unmount :: "event list \<Rightarrow> error option"
  exec_Run :: "event list \<Rightarrow> int \<times> error option"
  pollsBeforeTimeout :: "event list \<Rightarrow> nat"

definition ENOENT :: nat where "ENOENT = 2"
definition EINVAL :: nat where "EINVAL = 22"

text \<open>\<^verbatim>\<open>os.IsNotExist\<close>: the error of the OS call is \<^verbatim>\<open>ENOENT\<close>.\<close>

definition os_IsNotExist :: "error \<Rightarrow> bool" where
  "os_IsNotExist err = (err = Errno ENOENT)"

text \<open>
  A Go function that can panic returns \<open>Panics\<close> or its results. A function returning
  \<^verbatim>\<open>(*T, error)\<close> returns \<open>Inl err\<close> for \<^verbatim>\<open>(nil, err)\<close> and \<open>Inr v\<close> for \<^verbatim>\<open>(v, nil)\<close>.
\<close>

datatype 'a go = Panics | Returns 'a

subsection \<open>Tags\<close>

definition contivVolumeKey :: string where
  "contivVolumeKey = ''contiv.io.volplugin.volume.name''"

definition tagVolume :: "string \<Rightarrow> (string \<times> string) list \<Rightarrow> EC2 \<Rightarrow> event list \<Rightarrow> error option \<times> event list" where
  "tagVolume volumeID tags svc tr =
     (let tr1 = tr @ [API_CreateTags [volumeID] tags] in
      case CreateTags svc tr1 of Some err \<Rightarrow> (Some err, tr1) | None \<Rightarrow> (None, tr1))"

definition untagVolume :: "string \<Rightarrow> (string \<times> string) list \<Rightarrow> EC2 \<Rightarrow> event list \<Rightarrow> error option \<times> event list" where
  "untagVolume volumeID tags svc tr =
     (let tr1 = tr @ [API_DeleteTags [volumeID] tags] in
      case DeleteTags svc tr1 of Some err \<Rightarrow> (Some err, tr1) | None \<Rightarrow> (None, tr1))"

definition setVolumeNameTag :: "string \<Rightarrow> string \<Rightarrow> EC2 \<Rightarrow> event list \<Rightarrow> error option \<times> event list" where
  "setVolumeNameTag volumeID name svc tr = tagVolume volumeID [(contivVolumeKey, name)] svc tr"

definition deleteVolumeNameTag :: "string \<Rightarrow> string \<Rightarrow> EC2 \<Rightarrow> event list \<Rightarrow> error option \<times> event list" where
  "deleteVolumeNameTag volumeID name svc tr = untagVolume volumeID [(contivVolumeKey, name)] svc tr"

text \<open>
  \<^verbatim>\<open>getVolumesWithFilters\<close> returns \<^verbatim>\<open>resp.Tags, err\<close> as they come: a pair. Its request
  asks for \<^verbatim>\<open>MaxResults: aws.Int64(6)\<close>.
\<close>

definition getVolumesWithFilters :: "(string \<times> string list) list \<Rightarrow> EC2 \<Rightarrow> event list \<Rightarrow> (TagDescription list \<times> error option) \<times> event list" where
  "getVolumesWithFilters filters svc tr =
     (let tr1 = tr @ [API_DescribeTags filters 6] in (DescribeTags svc tr1, tr1))"

definition getVolumeWithTag :: "string \<Rightarrow> string \<Rightarrow> EC2 \<Rightarrow> event list \<Rightarrow> (error + TagDescription) \<times> event list" where
  "getVolumeWithTag key val svc tr =
     (let filters = [(''resource-type'', [''volume'']), (''key'', [key]), (''value'', [val])] in
      case getVolumesWithFilters filters svc tr of
        ((volumes, Some err), tr1) \<Rightarrow> (Inl err, tr1)
      | ((volumes, None), tr1) \<Rightarrow>
          if length volumes \<noteq> 1
          then (Inl (ErrorfN ''expected one response, got %v'' (length volumes)), tr1)
          else (Inr (volumes ! 0), tr1))"

definition getVolumeWithName :: "string \<Rightarrow> EC2 \<Rightarrow> event list \<Rightarrow> (error + string) \<times> event list" where
  "getVolumeWithName name svc tr =
     (case getVolumeWithTag contivVolumeKey name svc tr of
        (Inl err, tr1) \<Rightarrow> (Inl err, tr1)
      | (Inr tagDesc, tr1) \<Rightarrow> (Inr (ResourceId tagDesc), tr1))"

definition getVolumesWithKey :: "string \<Rightarrow> EC2 \<Rightarrow> event list \<Rightarrow> (error + TagDescription list) \<times> event list" where
  "getVolumesWithKey key svc tr =
     (let filters = [(''resource-type'', [''volume'']), (''key'', [key])] in
      case getVolumesWithFilters filters svc tr of
        ((volumes, Some err), tr1) \<Rightarrow> (Inl err, tr1)
      | ((volumes, None), tr1) \<Rightarrow> (Inr volumes, tr1))"

definition listVolumes :: "EC2 \<Rightarrow> event list \<Rightarrow> (error + TagDescription list) \<times> event list" where
  "listVolumes svc tr = getVolumesWithKey contivVolumeKey svc tr"

subsection \<open>Volumes and instances\<close>

record volumeConfig =
  availabilityZone :: string
  size' :: "64 word"
  iops :: "64 word"
  volumeType :: string
  snapshot :: string
  device' :: string

text \<open>
  \<^verbatim>\<open>createVolume\<close>; \<^verbatim>\<open>Create\<close> passes the address of a structure, so \<^verbatim>\<open>config\<close> is not
  nil. \<^verbatim>\<open>Iops\<close> is part of the input only when \<^verbatim>\<open>config.iops\<close> is not zero.
\<close>

definition createVolume :: "volumeConfig \<Rightarrow> EC2 \<Rightarrow> event list \<Rightarrow> (error + Volume) \<times> event list" where
  "createVolume config svc tr =
     (let tr1 = tr @ [API_CreateVolume (availabilityZone config) (size' config) (volumeType config)
                        (if iops config \<noteq> 0 then Some (iops config) else None)] in
      case CreateVolume svc tr1 of Inl err \<Rightarrow> (Inl err, tr1) | Inr resp \<Rightarrow> (Inr resp, tr1))"

definition attachVolume :: "string \<Rightarrow> string \<Rightarrow> string \<Rightarrow> EC2 \<Rightarrow> event list \<Rightarrow> (error + VolumeAttachment) \<times> event list" where
  "attachVolume volume instance device svc tr =
     (let tr1 = tr @ [API_AttachVolume device instance volume] in
      case AttachVolume svc tr1 of Inl err \<Rightarrow> (Inl err, tr1) | Inr resp \<Rightarrow> (Inr resp, tr1))"

definition detachVolume :: "string \<Rightarrow> string \<Rightarrow> string \<Rightarrow> bool \<Rightarrow> EC2 \<Rightarrow> event list \<Rightarrow> (error + VolumeAttachment) \<times> event list" where
  "detachVolume volume instance device force svc tr =
     (let tr1 = tr @ [API_DetachVolume volume device force instance] in
      case DetachVolume svc tr1 of Inl err \<Rightarrow> (Inl err, tr1) | Inr resp \<Rightarrow> (Inr resp, tr1))"

definition deleteVolume :: "string \<Rightarrow> EC2 \<Rightarrow> event list \<Rightarrow> error option \<times> event list" where
  "deleteVolume volume svc tr =
     (let tr1 = tr @ [API_DeleteVolume volume] in (DeleteVolume svc tr1, tr1))"

definition getInstanceID :: "host \<Rightarrow> event list \<Rightarrow> (error + string) \<times> event list" where
  "getInstanceID h tr =
     (let tr1 = tr @ [API_GetMetadata ''instance-id''] in
      case GetMetadata h tr1 of
        Inl err \<Rightarrow> (Inl (ErrorfE ''failed to retrieve the instance id: %v'' err), tr1)
      | Inr instanceID \<Rightarrow> (Inr instanceID, tr1))"

definition getInstanceInfo :: "string \<Rightarrow> EC2 \<Rightarrow> event list \<Rightarrow> (error + Instance) \<times> event list" where
  "getInstanceInfo instance svc tr =
     (let tr1 = tr @ [API_DescribeInstances [instance]] in
      case DescribeInstances svc tr1 of
        Inl err \<Rightarrow> (Inl err, tr1)
      | Inr reservations \<Rightarrow>
          if length reservations \<noteq> 1 then (Inl (Errorf ''expected exactly one reservation''), tr1)
          else if length (Instances (reservations ! 0)) \<noteq> 1
            then (Inl (Errorf ''expected exactly one instance''), tr1)
          else (Inr (Instances (reservations ! 0) ! 0), tr1))"

definition getVolumeInfo :: "string \<Rightarrow> EC2 \<Rightarrow> event list \<Rightarrow> (error + Volume) \<times> event list" where
  "getVolumeInfo volume svc tr =
     (let tr1 = tr @ [API_DescribeVolumes [volume]] in
      case DescribeVolumes svc tr1 of
        Inl err \<Rightarrow> (Inl err, tr1)
      | Inr volumes \<Rightarrow>
          if length volumes \<noteq> 1 then (Inl (Errorf ''expected exactly one volume''), tr1)
          else (Inr (volumes ! 0), tr1))"

subsection \<open>The synchronizers\<close>

text \<open>
  Each poll loop is a recursion on the number of polls that win the \<^verbatim>\<open>select\<close> before the
  timeout does: with none left, the branch \<^verbatim>\<open>case <-c\<close> runs.

  \<^verbatim>\<open>createVolumeSynchronously\<close> returns an error with no volume, \<^verbatim>\<open>errTimeout\<close> with the
  volume of the create call, or a volume and no error. The wait grows with \<^verbatim>\<open>exponent\<close>.
\<close>

fun createPoll :: "nat \<Rightarrow> nat \<Rightarrow> Volume \<Rightarrow> EC2 \<Rightarrow> event list \<Rightarrow> (error \<times> Volume option + Volume) \<times> event list" where
  "createPoll 0 exponent resp svc tr = (Inl (errTimeout, Some resp), tr)"
| "createPoll (Suc n) exponent resp svc tr =
     (case getVolumeInfo (VolumeId resp) svc (tr @ [TimeAfter (500 * exponent)]) of
        (Inr vol, tr1) \<Rightarrow>
          if State vol = VolumeStateAvailable then (Inr vol, tr1)
          else createPoll n (exponent + 1) resp svc tr1
      | (Inl err, tr1) \<Rightarrow> createPoll n (exponent + 1) resp svc tr1)"

definition createVolumeSynchronously :: "volumeConfig \<Rightarrow> EC2 \<Rightarrow> Duration \<Rightarrow> host \<Rightarrow> event list \<Rightarrow> (error \<times> Volume option + Volume) \<times> event list" where
  "createVolumeSynchronously config svc timeout h tr =
     (case createVolume config svc tr of
        (Inl err, tr1) \<Rightarrow> (Inl (err, None), tr1)
      | (Inr resp, tr1) \<Rightarrow>
          if State resp = VolumeStateAvailable then (Inr resp, tr1)
          else (let tr2 = tr1 @ [TimerStarted timeout] in
                createPoll (pollsBeforeTimeout h tr2) 1 resp svc tr2))"

text \<open>
  The loop of \<^verbatim>\<open>attachVolumeSynchronously\<close>. \<^verbatim>\<open>attachmentState\<close> is declared outside the
  loop and keeps its value between polls. After \<^verbatim>\<open>vol, err := getVolumeInfo(...)\<close> the code
  reads \<^verbatim>\<open>len(vol.Attachments)\<close> before it looks at \<^verbatim>\<open>err\<close>: with an error \<^verbatim>\<open>vol\<close> is nil
  and the read panics. \<^verbatim>\<open>vol.Attachments[0]\<close> in the \<^verbatim>\<open>return\<close> panics on an empty slice.
\<close>

fun attachPoll :: "nat \<Rightarrow> string \<Rightarrow> VolumeAttachment \<Rightarrow> string \<Rightarrow> EC2 \<Rightarrow> host \<Rightarrow> event list \<Rightarrow> (error + VolumeAttachment) go \<times> event list" where
  "attachPoll 0 attachmentState resp device svc h tr = (Returns (Inl errTimeout), tr)"
| "attachPoll (Suc n) attachmentState resp device svc h tr =
     (let tr1 = tr @ [TimeAfter 100, OS_Stat device] in
      if (case os_Stat h tr1 of Some err \<Rightarrow> os_IsNotExist err | None \<Rightarrow> False)
      then attachPoll n attachmentState resp device svc h tr1
      else (case getVolumeInfo (Attachment_VolumeId resp) svc tr1 of
              (Inl err, tr2) \<Rightarrow> (Panics, tr2)
            | (Inr vol, tr2) \<Rightarrow>
                (let attachmentState1 =
                       (if length (Attachments vol) = 1 then Attachment_State (Attachments vol ! 0)
                        else attachmentState) in
                 if attachmentState1 = VolumeAttachmentStateAttached
                 then (case Attachments vol of
                         [] \<Rightarrow> (Panics, tr2)
                       | a # as \<Rightarrow> (Returns (Inr a), tr2))
                 else attachPoll n attachmentState1 resp device svc h tr2)))"

definition attachVolumeSynchronously :: "string \<Rightarrow> string \<Rightarrow> string \<Rightarrow> EC2 \<Rightarrow> Duration \<Rightarrow> host \<Rightarrow> event list \<Rightarrow> (error + VolumeAttachment) go \<times> event list" where
  "attachVolumeSynchronously volume instance device svc timeout h tr =
     (case attachVolume volume instance device svc tr of
        (Inl err, tr1) \<Rightarrow> (Returns (Inl err), tr1)
      | (Inr resp, tr1) \<Rightarrow>
          if Attachment_State resp = VolumeAttachmentStateAttached then (Returns (Inr resp), tr1)
          else (let tr2 = tr1 @ [TimerStarted timeout] in
                attachPoll (pollsBeforeTimeout h tr2) [] resp device svc h tr2))"

fun detachPoll :: "nat \<Rightarrow> VolumeAttachment \<Rightarrow> string \<Rightarrow> EC2 \<Rightarrow> host \<Rightarrow> event list \<Rightarrow> (error + Volume) \<times> event list" where
  "detachPoll 0 resp device svc h tr = (Inl errTimeout, tr)"
| "detachPoll (Suc n) resp device svc h tr =
     (let tr1 = tr @ [TimeAfter 100, OS_Stat device] in
      case os_Stat h tr1 of
        None \<Rightarrow> detachPoll n resp device svc h tr1
      | Some err \<Rightarrow>
          (case getVolumeInfo (Attachment_VolumeId resp) svc tr1 of
             (Inr vol, tr2) \<Rightarrow>
               if State vol = VolumeStateAvailable then (Inr vol, tr2)
               else detachPoll n resp device svc h tr2
           | (Inl err, tr2) \<Rightarrow> detachPoll n resp device svc h tr2))"

definition detachVolumeSynchronously :: "string \<Rightarrow> string \<Rightarrow> string \<Rightarrow> bool \<Rightarrow> EC2 \<Rightarrow> Duration \<Rightarrow> host \<Rightarrow> event list \<Rightarrow> (error + Volume) \<times> event list" where
  "detachVolumeSynchronously volume instance device force svc timeout h tr =
     (case detachVolume volume instance device force svc tr of
        (Inl err, tr1) \<Rightarrow> (Inl err, tr1)
      | (Inr resp, tr1) \<Rightarrow>
          if Attachment_State resp = VolumeAttachmentStateDetached
          then (case getVolumeInfo (Attachment_VolumeId resp) svc tr1 of
                  (Inl err, tr2) \<Rightarrow> (Inl err, tr2)
                | (Inr vol, tr2) \<Rightarrow> (Inr vol, tr2))
          else (let tr2 = tr1 @ [TimerStarted timeout] in
                detachPoll (pollsBeforeTimeout h tr2) resp device svc h tr2))"

text \<open>
  The loop of \<^verbatim>\<open>deleteVolumeSynchronously\<close>: a query that succeeds continues, whatever
  the state; a query that fails returns nil when the error is an \<^verbatim>\<open>awserr.Error\<close> with the
  code \<^verbatim>\<open>InvalidVolume.NotFound\<close>, and falls out of the \<^verbatim>\<open>select\<close> to the next round
  otherwise.
\<close>

fun deletePoll :: "nat \<Rightarrow> string \<Rightarrow> EC2 \<Rightarrow> event list \<Rightarrow> error option \<times> event list" where
  "deletePoll 0 volume svc tr = (Some errTimeout, tr)"
| "deletePoll (Suc n) volume svc tr =
     (case getVolumeInfo volume svc (tr @ [TimeAfter 500]) of
        (Inr vol, tr1) \<Rightarrow> deletePoll n volume svc tr1
      | (Inl err, tr1) \<Rightarrow>
          (case err of
             AwsErr code \<Rightarrow>
               if code = ''InvalidVolume.NotFound'' then (None, tr1)
               else deletePoll n volume svc tr1
           | _ \<Rightarrow> deletePoll n volume svc tr1))"

definition deleteVolumeSynchronously :: "string \<Rightarrow> EC2 \<Rightarrow> Duration \<Rightarrow> host \<Rightarrow> event list \<Rightarrow> error option \<times> event list" where
  "deleteVolumeSynchronously volume svc timeout h tr =
     (case deleteVolume volume svc tr of
        (Some err, tr1) \<Rightarrow> (Some err, tr1)
      | (None, tr1) \<Rightarrow>
          (case getVolumeInfo volume svc tr1 of
             (Inl err, tr2) \<Rightarrow> (Some err, tr2)
           | (Inr vol, tr2) \<Rightarrow>
               if State vol = VolumeStateDeleted then (None, tr2)
               else (let tr3 = tr2 @ [TimerStarted timeout] in
                     deletePoll (pollsBeforeTimeout h tr3) volume svc tr3)))"

subsection \<open>The driver\<close>

text \<open>
  The options of the storage framework, with the fields the driver reads. A Go map gives
  the empty string for a key it does not have.
\<close>

record storage_Volume =
  Name :: string
  Size :: "64 word"
  Params :: "string \<rightharpoonup> string"

record FSOptions =
  Type :: string
  CreateCommand :: string

record DriverOptions =
  Volume :: storage_Volume
  FSOptions :: FSOptions
  Timeout :: Duration

record ListOptions =
  lo_Params :: "string \<rightharpoonup> string"

text \<open>The driver itself: \<^verbatim>\<open>type Driver struct { mountpath string }\<close>.\<close>

record Driver =
  mountpath :: string

definition param :: "(string \<rightharpoonup> string) \<Rightarrow> string \<Rightarrow> string" where
  "param m k = (case m k of None \<Rightarrow> [] | Some v \<Rightarrow> v)"

text \<open>
  \<^verbatim>\<open>mkMountPath\<close> and \<^verbatim>\<open>MountPath\<close> read the driver and their argument and nothing else:
  they take neither a client nor the host nor a trace.
\<close>

definition mkMountPath :: "Driver \<Rightarrow> string \<Rightarrow> error + string" where
  "mkMountPath c intName =
     (let volumePath = filepath_Join (mountpath c) intName in
      case filepath_Rel (mountpath c) volumePath of
        Inl err \<Rightarrow>
          Inl (Combine MountFailed
                 (ErrorfS ''Calculated volume path would escape subdir jail: %v'' volumePath))
      | Inr rel \<Rightarrow>
          if strings_Contains rel ''..''
          then Inl (Combine MountFailed
                      (ErrorfS ''Calculated volume path would escape subdir jail: %v'' volumePath))
          else Inr volumePath)"


text \<open>
  \<^verbatim>\<open>ec2.New(session.New(), &aws.Config{Region: ...})\<close> is the parameter \<open>ec2_New\<close>: the
  client of a region. Building the client calls nothing.

  \<^verbatim>\<open>Create\<close> checks the size after it has built the client and before its first call.
\<close>

definition Create :: "DriverOptions \<Rightarrow> (string \<Rightarrow> EC2) \<Rightarrow> host \<Rightarrow> event list \<Rightarrow> error option \<times> event list" where
  "Create do ec2_New h tr =
     (let region = param (Params (Volume do)) ''region'';
          availabilityZone = param (Params (Volume do)) ''availabilityzone'';
          svc = ec2_New region in
      case getVolumeSizeInGB (Size (Volume do)) of
        Inl err \<Rightarrow> (Some err, tr)
      | Inr sizeInGB \<Rightarrow>
          (let vc = \<lparr>availabilityZone = availabilityZone, size' = sizeInGB, iops = 0,
                     volumeType = ''gp2'', snapshot = [], device' = []\<rparr> in
           case createVolumeSynchronously vc svc (Timeout do) h tr of
             (Inl (err, resp), tr1) \<Rightarrow> (Some err, tr1)
           | (Inr resp, tr1) \<Rightarrow>
               (case setVolumeNameTag (VolumeId resp) (Name (Volume do)) svc tr1 of
                  (Some err, tr2) \<Rightarrow>
                    (Some (ErrorfE ''encountered error while storing volume name in tag: %v'' err), tr2)
                | (None, tr2) \<Rightarrow> (None, tr2))))"

text \<open>
  \<^verbatim>\<open>Validate\<close> touches neither the service nor the host: it is a function of the options.
  \<^verbatim>\<open>do.Validate()\<close> is the framework's own check, a parameter here.
\<close>

definition Validate :: "(DriverOptions \<Rightarrow> error option) \<Rightarrow> DriverOptions \<Rightarrow> error option" where
  "Validate do_Validate do =
     (case do_Validate do of
        Some err \<Rightarrow> Some err
      | None \<Rightarrow>
          (case getVolumeSizeInGB (Size (Volume do)) of
             Inl err \<Rightarrow> Some err
           | Inr sizeInGB \<Rightarrow>
               if param (Params (Volume do)) ''region'' = []
               then Some (Errorf ''AWS region is missing in ebs storage driver.'')
               else None))"

text \<open>
  \<^verbatim>\<open>mkfsVolume\<close> runs the templated command under \<^verbatim>\<open>/bin/sh -c\<close>; the runner answers with
  the exit status and an error. The error it builds is kept by its format and the device.
\<close>

definition mkfsVolume :: "string \<Rightarrow> string \<Rightarrow> Duration \<Rightarrow> host \<Rightarrow> event list \<Rightarrow> (error option \<times> event list) option" where
  "mkfsVolume fscmd devicePath timeout h tr =
     (case templateFSCmd fscmd devicePath of
        None \<Rightarrow> None
      | Some cmdline \<Rightarrow>
          (let tr1 = tr @ [OS_Exec [''/bin/sh'', ''-c'', cmdline] timeout] in
           case exec_Run h tr1 of
             (exitStatus, err) \<Rightarrow>
               if err \<noteq> None \<or> exitStatus \<noteq> 0
               then Some (Some (ErrorfS ''Error creating filesystem on %s with cmd: %q. Error: %v (%v) (%v) (%v)'' devicePath), tr1)
               else Some (None, tr1)))"

text \<open>
  \<^verbatim>\<open>Format\<close>. After the command, on either path, a failing detach is logged and the value
  returned is the one of the command.
\<close>

definition Format :: "DriverOptions \<Rightarrow> (string \<Rightarrow> EC2) \<Rightarrow> host \<Rightarrow> event list \<Rightarrow> (error option go \<times> event list) option" where
  "Format do ec2_New h tr =
     (let region = param (Params (Volume do)) ''region'' in
      case getInstanceID h tr of
        (Inl err, tr1) \<Rightarrow> Some (Returns (Some err), tr1)
      | (Inr instanceID, tr1) \<Rightarrow>
      (let svc = ec2_New region in
       case getVolumeWithName (Name (Volume do)) svc tr1 of
         (Inl err, tr2) \<Rightarrow> Some (Returns (Some err), tr2)
       | (Inr awsVolume, tr2) \<Rightarrow>
       (case getInstanceInfo instanceID svc tr2 of
          (Inl err, tr3) \<Rightarrow>
            Some (Returns (Some (ErrorfE ''failed to get information about the instance: %v'' err)), tr3)
        | (Inr instance, tr3) \<Rightarrow>
        (case findFreeBlockDevice (BlockDeviceMappings instance) of
           Inl err \<Rightarrow> Some (Returns (Some err), tr3)
         | Inr device \<Rightarrow>
         (case attachVolumeSynchronously awsVolume instanceID device svc (Timeout do) h tr3 of
            (Panics, tr4) \<Rightarrow> Some (Panics, tr4)
          | (Returns (Inl err), tr4) \<Rightarrow>
              Some (Returns (Some (ErrorfE ''failed to attach volume to instance: %v'' err)), tr4)
          | (Returns (Inr attachment), tr4) \<Rightarrow>
          (case mkfsVolume (CreateCommand (FSOptions do)) device (Timeout do) h tr4 of
             None \<Rightarrow> None
           | Some (Some err, tr5) \<Rightarrow>
               (case detachVolumeSynchronously awsVolume instanceID device True svc (Timeout do) h tr5 of
                  (Inl derr, tr6) \<Rightarrow>
                    Some (Returns (Some err),
                      tr6 @ [LogError (ErrorfE ''failed to detach volume after failing to create filesystem: %v'' derr)])
                | (Inr vol, tr6) \<Rightarrow> Some (Returns (Some err), tr6))
           | Some (None, tr5) \<Rightarrow>
               (case detachVolumeSynchronously awsVolume instanceID device True svc (Timeout do) h tr5 of
                  (Inl derr, tr6) \<Rightarrow>
                    Some (Returns None,
                      tr6 @ [LogError (ErrorfE ''failed to detach volume after failing to create filesystem: %v'' derr)])
                | (Inr vol, tr6) \<Rightarrow> Some (Returns None, tr6))))))))"

text \<open>
  \<^verbatim>\<open>List\<close> builds a \<^verbatim>\<open>storage.Volume\<close> with the name alone for every tag description
  it gets; with an error it returns the empty list and the error. \<^verbatim>\<open>Exists\<close> lists with
  the parameters of its volume and looks for the name.
\<close>

definition List :: "ListOptions \<Rightarrow> (string \<Rightarrow> EC2) \<Rightarrow> event list \<Rightarrow> (error + storage_Volume list) \<times> event list" where
  "List lo ec2_New tr =
     (let region = param (lo_Params lo) ''region''; svc = ec2_New region in
      case listVolumes svc tr of
        (Inl err, tr1) \<Rightarrow> (Inl err, tr1)
      | (Inr volumes, tr1) \<Rightarrow>
          (Inr (map (\<lambda>v. \<lparr>Name = Value v, Size = 0, Params = Map.empty\<rparr>) volumes), tr1))"

fun nameListed :: "string \<Rightarrow> storage_Volume list \<Rightarrow> bool" where
  "nameListed name [] = False"
| "nameListed name (vol # volumes) = (if Name vol = name then True else nameListed name volumes)"

definition Exists :: "DriverOptions \<Rightarrow> (string \<Rightarrow> EC2) \<Rightarrow> event list \<Rightarrow> (error + bool) \<times> event list" where
  "Exists do ec2_New tr =
     (case List \<lparr>lo_Params = Params (Volume do)\<rparr> ec2_New tr of
        (Inl err, tr1) \<Rightarrow> (Inl err, tr1)
      | (Inr volumes, tr1) \<Rightarrow> (Inr (nameListed (Name (Volume do)) volumes), tr1))"

definition Destroy :: "DriverOptions \<Rightarrow> (string \<Rightarrow> EC2) \<Rightarrow> host \<Rightarrow> event list \<Rightarrow> error option \<times> event list" where
  "Destroy do ec2_New h tr =
     (let region = param (Params (Volume do)) ''region''; svc = ec2_New region in
      case getVolumeWithName (Name (Volume do)) svc tr of
        (Inl err, tr1) \<Rightarrow> (Some (ErrorfE ''failed to retrieve the AWS EBS volume name: %v'' err), tr1)
      | (Inr awsVolume, tr1) \<Rightarrow>
          (case deleteVolumeNameTag awsVolume (Name (Volume do)) svc tr1 of
             (Some err, tr2) \<Rightarrow> (Some (ErrorfE ''failed to untag the volume: %v'' err), tr2)
           | (None, tr2) \<Rightarrow>
               (case deleteVolumeSynchronously awsVolume svc (Timeout do) h tr2 of
                  (Some err, tr3) \<Rightarrow> (Some (ErrorfE ''failed to destroy the AWS EBS volume: %v'' err), tr3)
                | (None, tr3) \<Rightarrow> (None, tr3))))"

text \<open>
  The part of \<^verbatim>\<open>Unmount\<close> from the label \<^verbatim>\<open>retry\<close> on. The two \<^verbatim>\<open>goto retry\<close> are the two
  recursive calls: the one after a failed unmount counts a retry and sleeps, the one after
  a failed removal of the directory does neither. Nothing bounds the second, so the loop is
  a partial function and \<^term>\<open>None\<close> is a run that never returns. An unmount fails when its
  error is neither \<^verbatim>\<open>ENOENT\<close> nor \<^verbatim>\<open>EINVAL\<close>, a removal when its error is not
  \<^verbatim>\<open>os.IsNotExist\<close>. The assertion \<^verbatim>\<open>lastErr.(*errored.Error)\<close> panics on a nil \<^verbatim>\<open>lastErr\<close>.
\<close>

definition unmountFailure :: "error option \<Rightarrow> error option" where
  "unmountFailure r =
     (case r of
        Some err \<Rightarrow> if err \<noteq> Errno ENOENT \<and> err \<noteq> Errno EINVAL then Some err else None
      | None \<Rightarrow> None)"

definition removeFailure :: "error option \<Rightarrow> error option" where
  "removeFailure r =
     (case r of
        Some err \<Rightarrow> if \<not> os_IsNotExist err then Some err else None
      | None \<Rightarrow> None)"

partial_function (option) unmountRetry :: "nat \<Rightarrow> error option \<Rightarrow> string \<Rightarrow> string \<Rightarrow> string \<Rightarrow> string \<Rightarrow> EC2 \<Rightarrow> Duration \<Rightarrow> host \<Rightarrow> event list \<Rightarrow> (error option go \<times> event list) option" where
  "unmountRetry retries lastErr volumeDir awsVolume instanceID device svc timeout h tr =
     (if retries < 3 then
        (case unmountFailure (unix_Unmount h (tr @ [OS_Unmount volumeDir])) of
           Some err \<Rightarrow>
             unmountRetry (retries + 1)
               (Some (ErrorfE ''Failed to unmount %q (retrying): %v'' err))
               volumeDir awsVolume instanceID device svc timeout h
               (tr @ [OS_Unmount volumeDir,
                      LogError (ErrorfE ''Failed to unmount %q (retrying): %v'' err), Sleep 100])
         | None \<Rightarrow>
             (case removeFailure (os_Remove h (tr @ [OS_Unmount volumeDir, OS_Remove volumeDir])) of
                Some err \<Rightarrow>
                  unmountRetry retries lastErr volumeDir awsVolume instanceID device svc timeout h
                    (tr @ [OS_Unmount volumeDir, OS_Remove volumeDir,
                           LogError (ErrorfE ''error removing %q directory: %v'' err)])
              | None \<Rightarrow>
                  (case detachVolumeSynchronously awsVolume instanceID device False svc timeout h
                          (tr @ [OS_Unmount volumeDir, OS_Remove volumeDir]) of
                     (Inl err, tr3) \<Rightarrow>
                       Some (Returns (Some (ErrorfE ''failed to detach volume from instance: %v'' err)), tr3)
                   | (Inr vol, tr3) \<Rightarrow> Some (Returns None, tr3))))
      else (case lastErr of
              None \<Rightarrow> Some (Panics, tr)
            | Some e \<Rightarrow>
                Some (Returns (Some (Combine (Errorf ''Failed to umount after 3 retries'') e)), tr)))"

declare unmountRetry.simps [code]

definition Unmount :: "Driver \<Rightarrow> DriverOptions \<Rightarrow> (string \<Rightarrow> EC2) \<Rightarrow> host \<Rightarrow> event list \<Rightarrow> (error option go \<times> event list) option" where
  "Unmount c do ec2_New h tr =
     (case getInstanceID h tr of
        (Inl err, tr1) \<Rightarrow> Some (Returns (Some err), tr1)
      | (Inr instanceID, tr1) \<Rightarrow>
      (let region = param (Params (Volume do)) ''region'' in
       case internalName (Name (Volume do)) of
         Inl err \<Rightarrow> Some (Returns (Some err), tr1)
       | Inr intName \<Rightarrow>
       (case mkMountPath c intName of
          Inl err \<Rightarrow> Some (Returns (Some err), tr1)
        | Inr volumeDir \<Rightarrow>
        (let svc = ec2_New region in
         case getVolumeWithName (Name (Volume do)) svc tr1 of
           (Inl err, tr2) \<Rightarrow> Some (Returns (Some err), tr2)
         | (Inr awsVolume, tr2) \<Rightarrow>
         (case getInstanceInfo instanceID svc tr2 of
            (Inl err, tr3) \<Rightarrow>
              Some (Returns (Some (ErrorfE ''failed to get information about the instance: %v'' err)), tr3)
          | (Inr instance, tr3) \<Rightarrow>
          (case findBlockVolumeBlockDevice (BlockDeviceMappings instance) awsVolume of
             Inl err \<Rightarrow>
               Some (Returns (Some (Errorf ''failed to find block device for attached volume'')), tr3)
           | Inr device \<Rightarrow>
               unmountRetry 0 None volumeDir awsVolume instanceID device svc (Timeout do) h tr3))))))"

subsection \<open>Concrete inputs\<close>

definition oneMapping :: "InstanceBlockDeviceMapping list" where
  "oneMapping = [\<lparr>DeviceName = ''/dev/xvda'', Ebs_VolumeId = ''vol-1''\<rparr>]"

definition fullMappings :: "InstanceBlockDeviceMapping list" where
  "fullMappings = map (\<lambda>c. \<lparr>DeviceName = ''/dev/xvd'' @ [c], Ebs_VolumeId = ''vol-1''\<rparr>)
     ''abcdefghijklmnopqrstuvwxy''"


text \<open>
  A remote service that holds a list of tag descriptions: \<^verbatim>\<open>DescribeTags\<close> answers with the
  first \<^verbatim>\<open>MaxResults\<close> descriptions that match every filter of the request, in the order
  of the list. Its other operations are not used.
\<close>

fun matchesFilter :: "TagDescription \<Rightarrow> string \<times> string list \<Rightarrow> bool" where
  "matchesFilter t (name, vals) =
     (if name = ''resource-type'' then ResourceType t \<in> set vals
      else if name = ''key'' then Key t \<in> set vals
      else if name = ''value'' then Value t \<in> set vals
      else False)"

definition describeTagsOf :: "TagDescription list \<Rightarrow> event list \<Rightarrow> TagDescription list \<times> error option" where
  "describeTagsOf store tr =
     (case rev tr of
        API_DescribeTags filters n # _ \<Rightarrow>
          (take n (filter (\<lambda>t. list_all (matchesFilter t) filters) store), None)
      | _ \<Rightarrow> ([], Some (OtherErr ''not a DescribeTags request'')))"

definition unusedErr :: error where "unusedErr = OtherErr ''not used''"

definition remoteWithTags :: "TagDescription list \<Rightarrow> EC2" where
  "remoteWithTags store =
     \<lparr>CreateVolume = (\<lambda>tr. Inl unusedErr), DeleteVolume = (\<lambda>tr. Some unusedErr),
      AttachVolume = (\<lambda>tr. Inl unusedErr), DetachVolume = (\<lambda>tr. Inl unusedErr),
      DescribeVolumes = (\<lambda>tr. Inl unusedErr), DescribeInstances = (\<lambda>tr. Inl unusedErr),
      CreateTags = (\<lambda>tr. Some unusedErr), DeleteTags = (\<lambda>tr. Some unusedErr),
      DescribeTags = describeTagsOf store\<rparr>"

definition volTag :: "string \<Rightarrow> string \<Rightarrow> TagDescription" where
  "volTag rid name = \<lparr>ResourceId = rid, ResourceType = ''volume'', Key = contivVolumeKey, Value = name\<rparr>"

definition sevenTags :: "TagDescription list" where
  "sevenTags = [volTag ''vol-1'' ''t/v1'', volTag ''vol-2'' ''t/v2'', volTag ''vol-3'' ''t/v3'',
     volTag ''vol-4'' ''t/v4'', volTag ''vol-5'' ''t/v5'', volTag ''vol-6'' ''t/v6'',
     volTag ''vol-7'' ''t/v7'']"

text \<open>The filters that \<^verbatim>\<open>getVolumeWithTag\<close> and \<^verbatim>\<open>getVolumesWithKey\<close> build for the name tag.\<close>

definition nameFilters :: "string \<Rightarrow> (string \<times> string list) list" where
  "nameFilters name = [(''resource-type'', [''volume'']), (''key'', [contivVolumeKey]), (''value'', [name])]"

definition listFilters :: "(string \<times> string list) list" where
  "listFilters = [(''resource-type'', [''volume'']), (''key'', [contivVolumeKey])]"


definition countDescribeVolumes :: "event list \<Rightarrow> nat" where
  "countDescribeVolumes tr = length (filter (\<lambda>e. case e of API_DescribeVolumes vs \<Rightarrow> True | _ \<Rightarrow> False) tr)"

text \<open>A service on which a deleted volume is still described \<open>k\<close> times as deleting and then is not found.\<close>
definition vanishingVolume :: "nat \<Rightarrow> EC2" where
  "vanishingVolume k =
     \<lparr>CreateVolume = (\<lambda>tr. Inl unusedErr), DeleteVolume = (\<lambda>tr. None),
      AttachVolume = (\<lambda>tr. Inl unusedErr), DetachVolume = (\<lambda>tr. Inl unusedErr),
      DescribeVolumes = (\<lambda>tr. if countDescribeVolumes tr \<le> k
         then Inr [\<lparr>VolumeId = ''vol-1'', State = ''deleting'', Attachments = []\<rparr>]
         else Inl (AwsErr ''InvalidVolume.NotFound'')),
      DescribeInstances = (\<lambda>tr. Inl unusedErr),
      CreateTags = (\<lambda>tr. Some unusedErr), DeleteTags = (\<lambda>tr. Some unusedErr),
      DescribeTags = (\<lambda>tr. ([], Some unusedErr))\<rparr>"

definition quietHost :: "nat \<Rightarrow> host" where
  "quietHost polls =
     \<lparr>GetMetadata = (\<lambda>tr. Inr ''i-1''), os_Stat = (\<lambda>tr. None), os_Remove = (\<lambda>tr. None),
      unix_Unmount = (\<lambda>tr. None), exec_Run = (\<lambda>tr. (0, None)),
      pollsBeforeTimeout = (\<lambda>tr. polls)\<rparr>"

definition attachingVolume :: EC2 where
  "attachingVolume =
     \<lparr>CreateVolume = (\<lambda>tr. Inl unusedErr), DeleteVolume = (\<lambda>tr. None),
      AttachVolume = (\<lambda>tr. Inr \<lparr>Attachment_VolumeId = ''vol-1'', Attachment_State = ''attaching''\<rparr>),
      DetachVolume = (\<lambda>tr. Inl unusedErr),
      DescribeVolumes = (\<lambda>tr. Inl (AwsErr ''RequestLimitExceeded'')),
      DescribeInstances = (\<lambda>tr. Inl unusedErr),
      CreateTags = (\<lambda>tr. Some unusedErr), DeleteTags = (\<lambda>tr. Some unusedErr),
      DescribeTags = (\<lambda>tr. ([], Some unusedErr))\<rparr>"


definition namedOptions :: "string \<Rightarrow> 64 word \<Rightarrow> DriverOptions" where
  "namedOptions name sz =
     \<lparr>Volume = \<lparr>Name = name, Size = sz,
        Params = [''region'' \<mapsto> ''eu-central-1'', ''availabilityzone'' \<mapsto> ''eu-central-1b'']\<rparr>,
      FSOptions = \<lparr>Type = ''ext4'', CreateCommand = ''mkfs.ext4 -m0 %''\<rparr>,
      Timeout = 10000000000\<rparr>"

definition testOptions :: "64 word \<Rightarrow> DriverOptions" where
  "testOptions sz = namedOptions ''test/pithos'' sz"

definition ebsDriver :: Driver where
  "ebsDriver = \<lparr>mountpath = ''/mnt/ebs''\<rparr>"


text \<open>A service with one tagged volume and one instance, on which a volume attaches at once and every detach is refused.\<close>
definition stuckVolume :: EC2 where
  "stuckVolume =
     \<lparr>CreateVolume = (\<lambda>tr. Inl unusedErr), DeleteVolume = (\<lambda>tr. Some unusedErr),
      AttachVolume = (\<lambda>tr. Inr \<lparr>Attachment_VolumeId = ''vol-1'', Attachment_State = ''attached''\<rparr>),
      DetachVolume = (\<lambda>tr. Inl (AwsErr ''IncorrectState'')),
      DescribeVolumes = (\<lambda>tr. Inl unusedErr),
      DescribeInstances = (\<lambda>tr. Inr [\<lparr>Instances = [\<lparr>BlockDeviceMappings = oneMapping\<rparr>]\<rparr>]),
      CreateTags = (\<lambda>tr. Some unusedErr), DeleteTags = (\<lambda>tr. Some unusedErr),
      DescribeTags = describeTagsOf [volTag ''vol-1'' ''test/pithos'']\<rparr>"


definition countRemoves :: "event list \<Rightarrow> nat" where
  "countRemoves tr = length (filter (\<lambda>e. case e of OS_Remove p \<Rightarrow> True | _ \<Rightarrow> False) tr)"

definition countUnmounts :: "event list \<Rightarrow> nat" where
  "countUnmounts tr = length (filter (\<lambda>e. case e of OS_Unmount p \<Rightarrow> True | _ \<Rightarrow> False) tr)"

definition ENOTEMPTY :: nat where "ENOTEMPTY = 39"

text \<open>A host on which every unmount succeeds and the removal of the directory fails \<open>k\<close> times, or always.\<close>
definition busyDirHost :: "nat option \<Rightarrow> host" where
  "busyDirHost k =
     \<lparr>GetMetadata = (\<lambda>tr. Inr ''i-1''), os_Stat = (\<lambda>tr. Some (Errno ENOENT)),
      os_Remove = (\<lambda>tr. case k of None \<Rightarrow> Some (Errno ENOTEMPTY)
         | Some n \<Rightarrow> if countRemoves tr \<le> n then Some (Errno ENOTEMPTY) else None),
      unix_Unmount = (\<lambda>tr. None), exec_Run = (\<lambda>tr. (0, None)),
      pollsBeforeTimeout = (\<lambda>tr. 20)\<rparr>"

definition attachedVolume :: EC2 where
  "attachedVolume =
     \<lparr>CreateVolume = (\<lambda>tr. Inl unusedErr), DeleteVolume = (\<lambda>tr. Some unusedErr),
      AttachVolume = (\<lambda>tr. Inl unusedErr),
      DetachVolume = (\<lambda>tr. Inr \<lparr>Attachment_VolumeId = ''vol-1'', Attachment_State = ''detached''\<rparr>),
      DescribeVolumes = (\<lambda>tr. Inr [\<lparr>VolumeId = ''vol-1'', State = ''available'', Attachments = []\<rparr>]),
      DescribeInstances = (\<lambda>tr. Inr [\<lparr>Instances = [\<lparr>BlockDeviceMappings =
         [\<lparr>DeviceName = ''/dev/xvdb'', Ebs_VolumeId = ''vol-1''\<rparr>]\<rparr>]\<rparr>]),
      CreateTags = (\<lambda>tr. Some unusedErr), DeleteTags = (\<lambda>tr. Some unusedErr),
      DescribeTags = describeTagsOf [volTag ''vol-1'' ''test/pithos'']\<rparr>"


definition fourUnmounts :: "event list" where
  "fourUnmounts =
     [API_GetMetadata ''instance-id'',
      API_DescribeTags (nameFilters ''test/pithos'') 6,
      API_DescribeInstances [''i-1''],
      OS_Unmount ''/mnt/ebs/test.pithos'', OS_Remove ''/mnt/ebs/test.pithos'',
      LogError (ErrorfE ''error removing %q directory: %v'' (Errno ENOTEMPTY)),
      OS_Unmount ''/mnt/ebs/test.pithos'', OS_Remove ''/mnt/ebs/test.pithos'',
      LogError (ErrorfE ''error removing %q directory: %v'' (Errno ENOTEMPTY)),
      OS_Unmount ''/mnt/ebs/test.pithos'', OS_Remove ''/mnt/ebs/test.pithos'',
      LogError (ErrorfE ''error removing %q directory: %v'' (Errno ENOTEMPTY)),
      OS_Unmount ''/mnt/ebs/test.pithos'', OS_Remove ''/mnt/ebs/test.pithos'',
      API_DetachVolume ''vol-1'' ''/dev/xvdb'' False ''i-1'',
      API_DescribeVolumes [''vol-1'']]"




section \<open>Properties\<close>

subsection \<open>Size validation\<close>

lemma gigabyteAsBytes_unat: "unat gigabyteAsBytes = 2 ^ 30"
  by (simp add: gigabyteAsBytes_def)

lemma getVolumeSizeInGB_fails:
  "unat sz < 2 ^ 30 \<or> unat sz mod 2 ^ 30 \<noteq> 0 \<Longrightarrow> \<exists>e. getVolumeSizeInGB sz = Inl e"
  by (auto simp: getVolumeSizeInGB_def word_less_nat_alt gigabyteAsBytes_unat
      unat_mod_distrib unat_eq_zero[symmetric])

lemma sint_small: "unat (w :: 64 word) < 2 ^ 63 \<Longrightarrow> sint w = int (unat w)"
proof -
  assume a: "unat w < 2 ^ 63"
  have "int (unat w) < int (2 ^ 63)" using a by (simp only: of_nat_less_iff)
  then have lt: "uint w < 2 ^ 63" by simp
  have ge: "- (2 ^ 63) \<le> uint w"
    by (rule order_trans[of _ 0]) simp_all
  have "signed_take_bit 63 (uint w) = uint w"
    using ge lt by (rule signed_take_bit_int_eq_self)
  then show ?thesis by (simp add: sint_uint)
qed

lemma getVolumeSizeInGB_ok:
  assumes "2 ^ 30 \<le> unat sz" and "unat sz mod 2 ^ 30 = 0"
  shows "\<exists>gb. getVolumeSizeInGB sz = Inr gb \<and> sint gb = int (unat sz div 2 ^ 30)"
proof -
  have lt: "\<not> sz < gigabyteAsBytes"
    using assms(1) by (simp add: word_less_nat_alt gigabyteAsBytes_unat)
  have md: "sz mod gigabyteAsBytes = 0"
    using assms(2) by (simp add: unat_eq_zero[symmetric] unat_mod_distrib gigabyteAsBytes_unat)
  have u: "unat (sz div gigabyteAsBytes) = unat sz div 2 ^ 30"
    by (simp add: unat_div_distrib gigabyteAsBytes_unat)
  have "unat sz < 2 ^ 64" using unsigned_less[of sz] by simp
  then have "unat sz div 2 ^ 30 < 2 ^ 34" by simp
  then have small: "unat (sz div gigabyteAsBytes) < 2 ^ 63" using u by simp
  show ?thesis using lt md u sint_small[OF small] by (simp add: getVolumeSizeInGB_def)
qed

text \<open>
  Claim C5. A size below one gigabyte (zero too) or not a multiple of one gigabyte fails
  \<^verbatim>\<open>getVolumeSizeInGB\<close>; \<^verbatim>\<open>Create\<close> then returns that error with the trace it was given,
  so before any call, and \<^verbatim>\<open>Validate\<close>, which calls nothing, returns it once the framework's
  own check of the options has passed (and that check's error otherwise). A multiple of one
  gigabyte from one gigabyte on gives the size divided by \<open>2 ^ 30\<close>.
\<close>

theorem size_validation:
  "(unat sz < 2 ^ 30 \<or> unat sz mod 2 ^ 30 \<noteq> 0 \<longrightarrow>
      (\<exists>e. getVolumeSizeInGB sz = Inl e \<and>
           (\<forall>do ec2_New h tr. Size (Volume do) = sz \<longrightarrow> Create do ec2_New h tr = (Some e, tr)) \<and>
           (\<forall>do do_Validate. Size (Volume do) = sz \<longrightarrow>
              Validate do_Validate do = (case do_Validate do of Some err \<Rightarrow> Some err | None \<Rightarrow> Some e)))) \<and>
   (2 ^ 30 \<le> unat sz \<and> unat sz mod 2 ^ 30 = 0 \<longrightarrow>
      (\<exists>gb. getVolumeSizeInGB sz = Inr gb \<and> sint gb = int (unat sz div 2 ^ 30)))"
proof (intro conjI impI)
  assume bad: "unat sz < 2 ^ 30 \<or> unat sz mod 2 ^ 30 \<noteq> 0"
  from getVolumeSizeInGB_fails[OF bad] obtain e where e: "getVolumeSizeInGB sz = Inl e" ..
  have c: "\<forall>do ec2_New h tr. Size (Volume do) = sz \<longrightarrow> Create do ec2_New h tr = (Some e, tr)"
    using e by (simp add: Create_def Let_def)
  have v: "\<forall>do do_Validate. Size (Volume do) = sz \<longrightarrow>
      Validate do_Validate do = (case do_Validate do of Some err \<Rightarrow> Some err | None \<Rightarrow> Some e)"
    using e by (simp add: Validate_def split: option.splits)
  show "\<exists>e. getVolumeSizeInGB sz = Inl e \<and>
           (\<forall>do ec2_New h tr. Size (Volume do) = sz \<longrightarrow> Create do ec2_New h tr = (Some e, tr)) \<and>
           (\<forall>do do_Validate. Size (Volume do) = sz \<longrightarrow>
              Validate do_Validate do = (case do_Validate do of Some err \<Rightarrow> Some err | None \<Rightarrow> Some e))"
    using e c v by blast
next
  assume a: "2 ^ 30 \<le> unat sz \<and> unat sz mod 2 ^ 30 = 0"
  show "\<exists>gb. getVolumeSizeInGB sz = Inr gb \<and> sint gb = int (unat sz div 2 ^ 30)"
    by (rule getVolumeSizeInGB_ok) (use a in simp_all)
qed

theorem size_validation_witness:
  "getVolumeSizeInGB 0 = Inl (Errorf ''the minimum volume size is 1 GB'') \<and>
   Create (testOptions 0) (\<lambda>region. remoteWithTags []) (quietHost 20) [] =
     (Some (Errorf ''the minimum volume size is 1 GB''), []) \<and>
   Validate (\<lambda>d. None) (testOptions 0) = Some (Errorf ''the minimum volume size is 1 GB'') \<and>
   getVolumeSizeInGB 4294967297 = Inl (Errorf ''volume size can only be provided as whole gigabytes'') \<and>
   Validate (\<lambda>d. None) (testOptions 4294967297) =
     Some (Errorf ''volume size can only be provided as whole gigabytes'') \<and>
   getVolumeSizeInGB 4294967296 = Inr 4"
proof -
  have z: "unat (0 :: 64 word) < 2 ^ 30 \<or> unat (0 :: 64 word) mod 2 ^ 30 \<noteq> 0" by simp
  have o: "unat (4294967297 :: 64 word) < 2 ^ 30 \<or> unat (4294967297 :: 64 word) mod 2 ^ 30 \<noteq> 0" by simp
  have f: "2 ^ 30 \<le> unat (4294967296 :: 64 word) \<and> unat (4294967296 :: 64 word) mod 2 ^ 30 = 0" by simp
  have s0: "Size (Volume (testOptions 0)) = 0" by (simp add: testOptions_def namedOptions_def)
  have s1: "Size (Volume (testOptions 4294967297)) = 4294967297" by (simp add: testOptions_def namedOptions_def)
  have e0: "getVolumeSizeInGB 0 = Inl (Errorf ''the minimum volume size is 1 GB'')"
    by (simp add: getVolumeSizeInGB_def gigabyteAsBytes_def)
  have e1: "getVolumeSizeInGB 4294967297 = Inl (Errorf ''volume size can only be provided as whole gigabytes'')"
    by (simp add: getVolumeSizeInGB_def gigabyteAsBytes_def)
  have e4: "getVolumeSizeInGB 4294967296 = Inr 4"
    by (simp add: getVolumeSizeInGB_def gigabyteAsBytes_def)
  from size_validation[of 0] z e0 s0
  have a: "Create (testOptions 0) (\<lambda>region. remoteWithTags []) (quietHost 20) [] =
     (Some (Errorf ''the minimum volume size is 1 GB''), [])"
    and b: "Validate (\<lambda>d. None) (testOptions 0) = Some (Errorf ''the minimum volume size is 1 GB'')"
    by auto
  from size_validation[of 4294967297] o e1 s1
  have c: "Validate (\<lambda>d. None) (testOptions 4294967297) =
     Some (Errorf ''volume size can only be provided as whole gigabytes'')"
    by auto
  show ?thesis using a b c e0 e1 e4 by simp
qed

subsection \<open>Device allocation\<close>

lemma usable_iff: "usable blockDev mappings \<longleftrightarrow> blockDev \<notin> DeviceName ` set mappings"
  by (induction mappings) auto

lemma findFreeBlockDeviceFrom_Inr:
  "findFreeBlockDeviceFrom dev mappings = Inr p \<Longrightarrow>
     \<exists>d. dev \<le> d \<and> d < 122 \<and> p = blockDevOf d \<and> p \<notin> DeviceName ` set mappings \<and>
         (\<forall>d'. dev \<le> d' \<and> d' < d \<longrightarrow> blockDevOf d' \<in> DeviceName ` set mappings)"
proof (induction dev mappings rule: findFreeBlockDeviceFrom.induct)
  case (1 dev mappings)
  show ?case
  proof (cases "dev < 122")
    case False
    with "1.prems" show ?thesis by (simp add: findFreeBlockDeviceFrom.simps[of dev])
  next
    case lt: True
    show ?thesis
    proof (cases "usable (blockDevOf dev) mappings")
      case True
      with lt "1.prems" have "p = blockDevOf dev"
        by (simp add: findFreeBlockDeviceFrom.simps[of dev])
      with True lt show ?thesis
        by (intro exI[of _ dev]) (auto simp: usable_iff)
    next
      case False
      with lt "1.prems" have "findFreeBlockDeviceFrom (dev + 1) mappings = Inr p"
        by (simp add: findFreeBlockDeviceFrom.simps[of dev])
      from "1.IH"[OF lt refl False this] obtain d where
        d: "dev + 1 \<le> d" "d < 122" "p = blockDevOf d" "p \<notin> DeviceName ` set mappings"
           "\<forall>d'. dev + 1 \<le> d' \<and> d' < d \<longrightarrow> blockDevOf d' \<in> DeviceName ` set mappings"
        by blast
      have "\<forall>d'. dev \<le> d' \<and> d' < d \<longrightarrow> blockDevOf d' \<in> DeviceName ` set mappings"
      proof (intro allI impI)
        fix d' assume a: "dev \<le> d' \<and> d' < d"
        show "blockDevOf d' \<in> DeviceName ` set mappings"
        proof (cases "d' = dev")
          case True
          with False show ?thesis by (simp add: usable_iff)
        next
          case False
          with a d(5) show ?thesis by simp
        qed
      qed
      with d show ?thesis by (intro exI[of _ d]) simp
    qed
  qed
qed

lemma findFreeBlockDeviceFrom_Inl:
  "findFreeBlockDeviceFrom dev mappings = Inl e \<Longrightarrow>
     e = Errorf ''failed to find free block device'' \<and>
     (\<forall>d. dev \<le> d \<and> d < 122 \<longrightarrow> blockDevOf d \<in> DeviceName ` set mappings)"
proof (induction dev mappings rule: findFreeBlockDeviceFrom.induct)
  case (1 dev mappings)
  show ?case
  proof (cases "dev < 122")
    case False
    with "1.prems" show ?thesis by (auto simp: findFreeBlockDeviceFrom.simps[of dev])
  next
    case lt: True
    from lt "1.prems" have nu: "\<not> usable (blockDevOf dev) mappings"
      by (auto simp: findFreeBlockDeviceFrom.simps[of dev] Let_def split: if_splits)
    with lt "1.prems" have "findFreeBlockDeviceFrom (dev + 1) mappings = Inl e"
      by (simp add: findFreeBlockDeviceFrom.simps[of dev])
    from "1.IH"[OF lt refl nu this] have
      e: "e = Errorf ''failed to find free block device''" and
      r: "\<forall>d. dev + 1 \<le> d \<and> d < 122 \<longrightarrow> blockDevOf d \<in> DeviceName ` set mappings"
      by blast+
    have "\<forall>d. dev \<le> d \<and> d < 122 \<longrightarrow> blockDevOf d \<in> DeviceName ` set mappings"
    proof (intro allI impI)
      fix d assume a: "dev \<le> d \<and> d < 122"
      show "blockDevOf d \<in> DeviceName ` set mappings"
      proof (cases "d = dev")
        case True
        with nu show ?thesis by (simp add: usable_iff)
      next
        case False
        with a r show ?thesis by simp
      qed
    qed
    with e show ?thesis by simp
  qed
qed

text \<open>
  The bytes 97 to 121 that the loop counts through are the letters \<^verbatim>\<open>a\<close> to \<^verbatim>\<open>y\<close>, so the
  paths it tries are \<^verbatim>\<open>/dev/xvda\<close> to \<^verbatim>\<open>/dev/xvdy\<close>, in this order.
\<close>

lemma suffix_letters: "map char_of [97..<122 :: nat] = ''abcdefghijklmnopqrstuvwxy''"
  by code_simp

lemma first_free_letters:
  assumes L: "map char_of [97..<122 :: nat] = L"
  shows "(case findFreeBlockDevice mappings of
      Inr p \<Rightarrow>
        \<exists>i<25. p = ''/dev/xvd'' @ [L ! i] \<and> L ! i = char_of (97 + i) \<and>
          p \<notin> DeviceName ` set mappings \<and>
          (\<forall>j<i. ''/dev/xvd'' @ [L ! j] \<in> DeviceName ` set mappings)
    | Inl e \<Rightarrow>
        e = Errorf ''failed to find free block device'' \<and>
        (\<forall>c\<in>set L. ''/dev/xvd'' @ [c] \<in> DeviceName ` set mappings)) \<and>
   ((\<exists>e. findFreeBlockDevice mappings = Inl e) \<longleftrightarrow>
      (\<forall>c\<in>set L. ''/dev/xvd'' @ [c] \<in> DeviceName ` set mappings))"
proof -
  let ?N = "DeviceName ` set mappings"
  have nth: "L ! i = char_of (97 + i)" if "i < 25" for i
  proof -
    have "L ! i = map char_of [97..<122 :: nat] ! i" by (simp only: L)
    also have "\<dots> = char_of ([97..<122 :: nat] ! i)"
      using that by (intro nth_map) simp
    also have "\<dots> = char_of (97 + i)"
    proof -
      have "[97..<122 :: nat] ! i = 97 + i"
        using that by (intro nth_upt) simp
      then show ?thesis by (simp only:)
    qed
    finally show ?thesis .
  qed
  have setL: "set L = char_of ` {97..<122 :: nat}"
    by (simp only: L[symmetric] set_map set_upt)
  have dev_letter: "blockDevOf d = ''/dev/xvd'' @ [L ! (d - 97)]" if "97 \<le> d" "d < 122" for d
    using that nth[of "d - 97"] by (simp add: blockDevOf_def)
  have all_iff: "(\<forall>c\<in>set L. ''/dev/xvd'' @ [c] \<in> ?N) \<longleftrightarrow>
      (\<forall>d. 97 \<le> d \<and> d < 122 \<longrightarrow> blockDevOf d \<in> ?N)"
    unfolding setL blockDevOf_def by auto
  show ?thesis
  proof (cases "findFreeBlockDevice mappings")
    case (Inl e)
    from findFreeBlockDeviceFrom_Inl[of 97 mappings e] Inl
    have e: "e = Errorf ''failed to find free block device''"
      and r: "\<forall>d. 97 \<le> d \<and> d < 122 \<longrightarrow> blockDevOf d \<in> ?N"
      by (simp_all add: findFreeBlockDevice_def)
    from r have "\<forall>c\<in>set L. ''/dev/xvd'' @ [c] \<in> ?N" by (simp only: all_iff)
    then show ?thesis using Inl e by simp
  next
    case (Inr p)
    from findFreeBlockDeviceFrom_Inr[of 97 mappings p] Inr
    obtain dev where dev: "97 \<le> dev" "dev < 122" "p = blockDevOf dev" "p \<notin> ?N"
      "\<forall>d. 97 \<le> d \<and> d < dev \<longrightarrow> blockDevOf d \<in> ?N"
      by (auto simp: findFreeBlockDevice_def)
    let ?i = "dev - 97"
    have i: "?i < 25" using dev by simp
    have p: "p = ''/dev/xvd'' @ [L ! ?i]"
      using dev dev_letter[of dev] by simp
    have c: "L ! ?i = char_of (97 + ?i)" using i by (rule nth)
    have earlier: "\<forall>j<?i. ''/dev/xvd'' @ [L ! j] \<in> ?N"
    proof (intro allI impI)
      fix j assume j: "j < ?i"
      then have "97 \<le> 97 + j \<and> 97 + j < dev" using dev by simp
      then have "blockDevOf (97 + j) \<in> ?N" using dev(5) by blast
      moreover have "blockDevOf (97 + j) = ''/dev/xvd'' @ [L ! j]"
        using dev_letter[of "97 + j"] j dev by simp
      ultimately show "''/dev/xvd'' @ [L ! j] \<in> ?N" by simp
    qed
    have "\<not> (\<forall>d. 97 \<le> d \<and> d < 122 \<longrightarrow> blockDevOf d \<in> ?N)"
      using dev(1-4) by blast
    then have notall: "\<not> (\<forall>c\<in>set L. ''/dev/xvd'' @ [c] \<in> ?N)" using all_iff by blast
    have ex: "\<exists>i<25. p = ''/dev/xvd'' @ [L ! i] \<and> L ! i = char_of (97 + i) \<and> p \<notin> ?N \<and>
          (\<forall>j<i. ''/dev/xvd'' @ [L ! j] \<in> ?N)"
      using i p c dev(4) earlier by blast
    show ?thesis using Inr ex notall by simp
  qed
qed

text \<open>
  Claim C6. \<^verbatim>\<open>findFreeBlockDevice\<close> tries the 25 suffixes \<^verbatim>\<open>a\<close> to \<^verbatim>\<open>y\<close> in order. When
  it returns a path, the path is \<^verbatim>\<open>/dev/xvd\<close> followed by one of these letters, it is not a
  device name of the mapping list, and the path of every earlier letter is one. When it
  fails, the error is the one for no free device and the paths of all 25 letters are device
  names of the list; so it fails exactly when all of them are taken. The letters are written
  out: they are 25 and distinct.
\<close>

theorem findFreeBlockDevice_first_free:
  "(case findFreeBlockDevice mappings of
      Inr p \<Rightarrow>
        \<exists>i<25. p = ''/dev/xvd'' @ [''abcdefghijklmnopqrstuvwxy'' ! i] \<and>
          ''abcdefghijklmnopqrstuvwxy'' ! i = char_of (97 + i) \<and>
          p \<notin> DeviceName ` set mappings \<and>
          (\<forall>j<i. ''/dev/xvd'' @ [''abcdefghijklmnopqrstuvwxy'' ! j] \<in> DeviceName ` set mappings)
    | Inl e \<Rightarrow>
        e = Errorf ''failed to find free block device'' \<and>
        (\<forall>c\<in>set ''abcdefghijklmnopqrstuvwxy''. ''/dev/xvd'' @ [c] \<in> DeviceName ` set mappings)) \<and>
   ((\<exists>e. findFreeBlockDevice mappings = Inl e) \<longleftrightarrow>
      (\<forall>c\<in>set ''abcdefghijklmnopqrstuvwxy''. ''/dev/xvd'' @ [c] \<in> DeviceName ` set mappings)) \<and>
   length ''abcdefghijklmnopqrstuvwxy'' = 25 \<and> distinct ''abcdefghijklmnopqrstuvwxy''"
proof -
  have l: "length ''abcdefghijklmnopqrstuvwxy'' = 25"
    by simp
  have d: "distinct ''abcdefghijklmnopqrstuvwxy''"
    by code_simp
  from first_free_letters[OF suffix_letters, of mappings] l d show ?thesis
    by (intro conjI) (rule conjunct1, assumption, rule conjunct2, assumption, assumption+)
qed

theorem findFreeBlockDevice_first_free_witness:
  "findFreeBlockDevice [] = Inr ''/dev/xvda'' \<and>
   findFreeBlockDevice oneMapping = Inr ''/dev/xvdb'' \<and>
   ''/dev/xvda'' \<in> DeviceName ` set oneMapping \<and>
   ''/dev/xvdb'' \<notin> DeviceName ` set oneMapping \<and>
   findFreeBlockDevice fullMappings = Inl (Errorf ''failed to find free block device'') \<and>
   ''/dev/xvda'' \<in> DeviceName ` set fullMappings \<and>
   ''/dev/xvdy'' \<in> DeviceName ` set fullMappings"
proof -
  have none: "findFreeBlockDevice [] = Inr ''/dev/xvda''"
    by code_simp
  have one: "findFreeBlockDevice oneMapping = Inr ''/dev/xvdb''"
    by code_simp
  have full: "findFreeBlockDevice fullMappings = Inl (Errorf ''failed to find free block device'')"
    by code_simp
  have a: "''/dev/xvda'' \<in> DeviceName ` set oneMapping"
    by (simp add: oneMapping_def)
  from findFreeBlockDevice_first_free[of oneMapping] one
  have b: "''/dev/xvdb'' \<notin> DeviceName ` set oneMapping"
    by auto
  from findFreeBlockDevice_first_free[of fullMappings] full
  have all: "\<forall>c\<in>set ''abcdefghijklmnopqrstuvwxy''. ''/dev/xvd'' @ [c] \<in> DeviceName ` set fullMappings"
    by simp
  from all have fa: "''/dev/xvd'' @ [CHR ''a''] \<in> DeviceName ` set fullMappings"
    by (rule bspec) simp
  from all have fy: "''/dev/xvd'' @ [CHR ''y''] \<in> DeviceName ` set fullMappings"
    by (rule bspec) simp
  show ?thesis using none one full a b fa fy by simp
qed

subsection \<open>Identity resolution\<close>

text \<open>
  Claim C7. When the tag query for a name succeeds, \<^verbatim>\<open>getVolumeWithName\<close> returns the
  resource id of the one description there is; with no description it fails with
  \<^verbatim>\<open>expected one response, got 0\<close> (the name is not found), and with two or more it fails
  with \<^verbatim>\<open>expected one response, got n\<close> for their number \<open>n\<close> (the name is ambiguous): it
  never picks one of several.
\<close>

theorem getVolumeWithName_resolution:
  assumes "DescribeTags svc (tr @ [API_DescribeTags (nameFilters name) 6]) = (tags, None)"
  shows "(\<forall>t. tags = [t] \<longrightarrow> fst (getVolumeWithName name svc tr) = Inr (ResourceId t)) \<and>
         (tags = [] \<longrightarrow>
            fst (getVolumeWithName name svc tr) = Inl (ErrorfN ''expected one response, got %v'' 0)) \<and>
         (2 \<le> length tags \<longrightarrow>
            fst (getVolumeWithName name svc tr) =
              Inl (ErrorfN ''expected one response, got %v'' (length tags)))"
  using assms
  by (auto simp: getVolumeWithName_def getVolumeWithTag_def getVolumesWithFilters_def nameFilters_def Let_def)


theorem getVolumeWithName_resolution_witness:
  "fst (getVolumeWithName ''t/v3'' (remoteWithTags sevenTags) []) = Inr ''vol-3'' \<and>
   fst (getVolumeWithName ''t/v9'' (remoteWithTags sevenTags) []) =
     Inl (ErrorfN ''expected one response, got %v'' 0) \<and>
   fst (getVolumeWithName ''t/v1'' (remoteWithTags (volTag ''vol-9'' ''t/v1'' # sevenTags)) []) =
     Inl (ErrorfN ''expected one response, got %v'' 2)"
proof -
  have one: "DescribeTags (remoteWithTags sevenTags) ([] @ [API_DescribeTags (nameFilters ''t/v3'') 6]) =
      ([volTag ''vol-3'' ''t/v3''], None)"
    by code_simp
  have zero: "DescribeTags (remoteWithTags sevenTags) ([] @ [API_DescribeTags (nameFilters ''t/v9'') 6]) =
      ([], None)"
    by code_simp
  have two: "DescribeTags (remoteWithTags (volTag ''vol-9'' ''t/v1'' # sevenTags))
      ([] @ [API_DescribeTags (nameFilters ''t/v1'') 6]) =
      ([volTag ''vol-9'' ''t/v1'', volTag ''vol-1'' ''t/v1''], None)"
    by code_simp
  show ?thesis
    using getVolumeWithName_resolution[OF one] getVolumeWithName_resolution[OF zero]
      getVolumeWithName_resolution[OF two]
    by (simp add: volTag_def)
qed


subsection \<open>Listing\<close>

lemma nameListed_iff: "nameListed name volumes \<longleftrightarrow> name \<in> Name ` set volumes"
  by (induction volumes) auto

text \<open>
  Claim C9. Every tag query goes through \<^verbatim>\<open>getVolumesWithFilters\<close>, whose request has
  \<^verbatim>\<open>MaxResults\<close> 6. With a service that returns no more descriptions than a request asks
  for, \<^verbatim>\<open>List\<close> returns at most 6 volumes, and \<^verbatim>\<open>Exists\<close> is true exactly for the names
  on that one page: a name tagged on a volume beyond the page is reported as not existing.
\<close>

theorem List_first_page:
  assumes "\<forall>svc tr filters n. svc \<in> range ec2_New \<longrightarrow>
             length (fst (DescribeTags svc (tr @ [API_DescribeTags filters n]))) \<le> n"
  shows "snd (getVolumesWithFilters filters (ec2_New region) tr) = tr @ [API_DescribeTags filters 6] \<and>
         snd (List lo ec2_New tr) = tr @ [API_DescribeTags listFilters 6] \<and>
         (\<forall>volumes. fst (List lo ec2_New tr) = Inr volumes \<longrightarrow> length volumes \<le> 6) \<and>
         fst (Exists do ec2_New tr) =
           (case DescribeTags (ec2_New (param (Params (Volume do)) ''region''))
                   (tr @ [API_DescribeTags listFilters 6]) of
              (page, None) \<Rightarrow> Inr (Name (Volume do) \<in> Value ` set page)
            | (page, Some err) \<Rightarrow> Inl err)"
proof -
  let ?svc = "ec2_New (param (lo_Params lo) ''region'')"
  let ?svc' = "ec2_New (param (Params (Volume do)) ''region'')"
  obtain page err where p: "DescribeTags ?svc (tr @ [API_DescribeTags listFilters 6]) = (page, err)"
    by (cases "DescribeTags ?svc (tr @ [API_DescribeTags listFilters 6])")
  obtain page' err' where p': "DescribeTags ?svc' (tr @ [API_DescribeTags listFilters 6]) = (page', err')"
    by (cases "DescribeTags ?svc' (tr @ [API_DescribeTags listFilters 6])")
  have len: "length page \<le> 6"
    using assms[rule_format, of ?svc tr listFilters 6] p by simp
  have l: "snd (List lo ec2_New tr) = tr @ [API_DescribeTags listFilters 6] \<and>
         (\<forall>volumes. fst (List lo ec2_New tr) = Inr volumes \<longrightarrow> length volumes \<le> 6)"
    using p len
    by (cases err) (auto simp: List_def listVolumes_def getVolumesWithKey_def
        getVolumesWithFilters_def listFilters_def Let_def)
  have e: "fst (Exists do ec2_New tr) =
           (case DescribeTags ?svc' (tr @ [API_DescribeTags listFilters 6]) of
              (page, None) \<Rightarrow> Inr (Name (Volume do) \<in> Value ` set page)
            | (page, Some err) \<Rightarrow> Inl err)"
    using p'
    by (cases err') (simp_all add: Exists_def List_def listVolumes_def getVolumesWithKey_def
        getVolumesWithFilters_def listFilters_def Let_def nameListed_iff image_image)
  show ?thesis
    using l e by (simp add: getVolumesWithFilters_def Let_def)
qed

theorem List_first_page_witness:
  "fst (List \<lparr>lo_Params = Map.empty\<rparr> (\<lambda>region. remoteWithTags sevenTags) []) =
     Inr (map (\<lambda>n. \<lparr>Name = n, Size = 0, Params = Map.empty\<rparr>)
            [''t/v1'', ''t/v2'', ''t/v3'', ''t/v4'', ''t/v5'', ''t/v6'']) \<and>
   snd (List \<lparr>lo_Params = Map.empty\<rparr> (\<lambda>region. remoteWithTags sevenTags) []) =
     [API_DescribeTags listFilters 6] \<and>
   volTag ''vol-7'' ''t/v7'' \<in> set sevenTags \<and>
   fst (Exists (namedOptions ''t/v7'' 4294967296) (\<lambda>region. remoteWithTags sevenTags) []) = Inr False \<and>
   fst (Exists (namedOptions ''t/v6'' 4294967296) (\<lambda>region. remoteWithTags sevenTags) []) = Inr True"
proof -
  let ?new = "\<lambda>region :: string. remoteWithTags sevenTags"
  have h: "\<forall>svc tr filters n. svc \<in> range ?new \<longrightarrow>
      length (fst (DescribeTags svc (tr @ [API_DescribeTags filters n]))) \<le> n"
    by (simp add: remoteWithTags_def describeTagsOf_def)
  have page: "DescribeTags (remoteWithTags sevenTags) ([] @ [API_DescribeTags listFilters 6]) =
      (take 6 sevenTags, None)"
    by code_simp
  have l: "fst (List \<lparr>lo_Params = Map.empty\<rparr> ?new []) =
     Inr (map (\<lambda>n. \<lparr>Name = n, Size = 0, Params = Map.empty\<rparr>)
            [''t/v1'', ''t/v2'', ''t/v3'', ''t/v4'', ''t/v5'', ''t/v6''])"
    using page
    by (simp add: List_def listVolumes_def getVolumesWithKey_def getVolumesWithFilters_def
        listFilters_def Let_def sevenTags_def volTag_def)
  have m: "volTag ''vol-7'' ''t/v7'' \<in> set sevenTags"
    by (simp add: sevenTags_def)
  have v: "Value ` set (take 6 sevenTags) = {''t/v1'', ''t/v2'', ''t/v3'', ''t/v4'', ''t/v5'', ''t/v6''}"
    by (simp add: sevenTags_def volTag_def)
  have n: "Name (Volume (namedOptions name sz)) = name" for name sz
    by (simp add: namedOptions_def)
  show ?thesis
    using List_first_page[OF h, where tr = "[]" and lo = "\<lparr>lo_Params = Map.empty\<rparr>"
        and do = "namedOptions ''t/v7'' 4294967296"]
      List_first_page[OF h, where tr = "[]" and lo = "\<lparr>lo_Params = Map.empty\<rparr>"
        and do = "namedOptions ''t/v6'' 4294967296"] page l m v n
    by simp
qed

subsection \<open>The filesystem command\<close>

lemma expand_plain: "c \<noteq> CHR ''%'' \<Longrightarrow> expandTemplate dev (c # cs) = c # expandTemplate dev cs"
  by (cases cs) auto

lemma expand_plain_append:
  "CHR ''%'' \<notin> set ds \<Longrightarrow> expandTemplate dev (ds @ r) = ds @ expandTemplate dev r"
  by (induction ds) (auto simp: expand_plain)

lemma expand_single: "r = [] \<or> hd r \<noteq> CHR ''%'' \<Longrightarrow>
  expandTemplate dev (CHR ''%'' # r) = dev @ expandTemplate dev r"
  by (cases r) auto

lemma templateFSCmdFrom_correct:
  assumes nopct: "CHR ''%'' \<notin> set dev"
  shows "templateFSCmdFrom (length p) (p @ r) dev = Some (p @ expandTemplate dev r)"
proof (induction "weight dev r" arbitrary: p r rule: less_induct)
  case less
  show ?case
  proof (cases r)
    case Nil
    then show ?thesis by (subst templateFSCmdFrom.simps) simp
  next
    case (Cons c r')
    show ?thesis
    proof (cases "c = CHR ''%''")
      case False
      have w: "weight dev r' < weight dev r" using Cons by (simp add: weight_def)
      have "templateFSCmdFrom (length p) (p @ r) dev = templateFSCmdFrom (length (p @ [c])) ((p @ [c]) @ r') dev"
        using Cons False by (subst templateFSCmdFrom.simps) simp
      also have "\<dots> = Some ((p @ [c]) @ expandTemplate dev r')"
        by (rule less[OF w])
      finally show ?thesis using Cons False by (simp add: expand_plain)
    next
      case pct: True
      show ?thesis
      proof (cases "r' \<noteq> [] \<and> hd r' = CHR ''%''")
        case True
        then obtain r'' where r': "r' = CHR ''%'' # r''" by (cases r') auto
        have w: "weight dev r'' < weight dev r" using Cons r' by (simp add: weight_def)
        have "templateFSCmdFrom (length p) (p @ r) dev =
              templateFSCmdFrom (length (p @ ''%%'')) ((p @ ''%%'') @ r'') dev"
          using Cons pct r' by (subst templateFSCmdFrom.simps) (simp add: nth_append)
        also have "\<dots> = Some ((p @ ''%%'') @ expandTemplate dev r'')"
          by (rule less[OF w])
        finally show ?thesis using Cons pct r' by simp
      next
        case single: False
        have step: "templateFSCmdFrom (length p) (p @ r) dev =
              templateFSCmdFrom (length p + 1) (p @ dev @ r') dev"
          using Cons pct single
          by (subst templateFSCmdFrom.simps) (cases r'; auto simp: nth_append Let_def)
        have ex: "expandTemplate dev r = dev @ expandTemplate dev r'"
          using Cons pct single expand_single[of r' dev] by auto
        show ?thesis
        proof (cases dev)
          case (Cons d ds)
          have nds: "CHR ''%'' \<notin> set ds" using nopct Cons by simp
          have "count_list (ds @ r') (CHR ''%'') = count_list r' (CHR ''%'')"
            using nds by (induction ds) auto
          then have w: "weight dev (ds @ r') < weight dev r"
            using \<open>r = c # r'\<close> pct Cons by (simp add: weight_def)
          have "templateFSCmdFrom (length p + 1) (p @ dev @ r') dev =
                templateFSCmdFrom (length (p @ [d])) ((p @ [d]) @ (ds @ r')) dev"
            using Cons by simp
          also have "\<dots> = Some ((p @ [d]) @ expandTemplate dev (ds @ r'))"
            by (rule less[OF w])
          finally show ?thesis using step ex Cons nds by (simp add: expand_plain_append)
        next
          case Nil
          show ?thesis
          proof (cases r')
            case Nil
            have "templateFSCmdFrom (Suc (length p)) p [] = Some p"
              by (subst templateFSCmdFrom.simps) simp
            then show ?thesis using Nil step ex \<open>dev = []\<close> by simp
          next
            case (Cons e r'')
            have ne: "e \<noteq> CHR ''%''" using single Cons by simp
            have w: "weight dev r'' < weight dev r"
              using \<open>r = c # r'\<close> Cons by (simp add: weight_def)
            have "templateFSCmdFrom (length p + 1) (p @ dev @ r') dev =
                  templateFSCmdFrom (length (p @ [e])) ((p @ [e]) @ r'') dev"
              using Cons \<open>dev = []\<close> by simp
            also have "\<dots> = Some ((p @ [e]) @ expandTemplate dev r'')"
              by (rule less[OF w])
            finally show ?thesis using step ex Cons ne \<open>dev = []\<close> by (simp add: expand_plain)
          qed
        qed
      qed
    qed
  qed
qed


text \<open>
  With a \<^verbatim>\<open>%\<close> in the device path the scan meets the \<^verbatim>\<open>%\<close> it has just written: for the
  template \<^verbatim>\<open>%\<close> and the device path \<^verbatim>\<open>a%\<close> the string grows by one \<^verbatim>\<open>a\<close> in every round
  and the loop never ends.
\<close>

lemma templateFSCmd_device_with_percent:
  "templateFSCmd ''%'' ''a%'' = None"
proof -
  have inv: "\<not> (devicePath = ''a%'' \<and> fscmd = replicate idx (CHR ''a'') @ ''%'')"
    if run: "templateFSCmdFrom idx fscmd devicePath = Some y" for idx fscmd devicePath y
  proof (rule templateFSCmdFrom.raw_induct[where P = "\<lambda>idx fscmd devicePath y.
      \<not> (devicePath = ''a%'' \<and> fscmd = replicate idx (CHR ''a'') @ ''%'')", OF _ run], goal_cases)
    case (1 f idx fscmd devicePath y)
    note IH = "1"(1) and body = "1"(2)
    show ?case
    proof
      assume a: "devicePath = ''a%'' \<and> fscmd = replicate idx (CHR ''a'') @ ''%''"
      then have len: "length fscmd = idx + 1" and at: "fscmd ! idx = CHR ''%''"
        and tk: "take idx fscmd = replicate idx (CHR ''a'')"
        by (simp_all add: nth_append)
      have eq: "replicate idx (CHR ''a'') @ ''a%'' = replicate (idx + 1) (CHR ''a'') @ ''%''"
        by (induction idx) auto
      have "f (idx + 1) (replicate idx (CHR ''a'') @ ''a%'') devicePath = Some y"
      proof (cases "idx = 0")
        case True
        then show ?thesis using body a by simp
      next
        case False
        then show ?thesis using body a len at tk by (simp add: Let_def)
      qed
      then have "f (idx + 1) (replicate (idx + 1) (CHR ''a'') @ ''%'') devicePath = Some y"
        by (simp only: eq)
      from IH[OF this] a show False by simp
    qed
  qed
  show ?thesis
  proof (cases "templateFSCmd ''%'' ''a%''")
    case None
    then show ?thesis .
  next
    case (Some y)
    then have "templateFSCmdFrom 0 ''%'' ''a%'' = Some y" by (simp add: templateFSCmd_def)
    from inv[OF this] show ?thesis by simp
  qed
qed

text \<open>
  Claim C2, as the code has it. For every template and every device path without \<^verbatim>\<open>%\<close>,
  \<^verbatim>\<open>templateFSCmd\<close> returns, and its result is the template with every \<^verbatim>\<open>%\<close> that is not
  part of a pair replaced by the device path, scanning from the left; a pair \<^verbatim>\<open>%%\<close> is
  skipped and stays \<^verbatim>\<open>%%\<close>.
\<close>

theorem templateFSCmd_expands:
  assumes "CHR ''%'' \<notin> set devicePath"
  shows "templateFSCmd fscmd devicePath = Some (expandTemplate devicePath fscmd)"
  using templateFSCmdFrom_correct[OF assms, of "[]" fscmd] by (simp add: templateFSCmd_def)

theorem templateFSCmd_expands_witness:
  "CHR ''%'' \<notin> set ''/dev/xvdb'' \<and>
   templateFSCmd ''mkfs.ext4 -m0 %'' ''/dev/xvdb'' = Some ''mkfs.ext4 -m0 /dev/xvdb'' \<and>
   templateFSCmd ''%%%'' ''/dev/xvdb'' = Some ''%%/dev/xvdb''"
proof -
  have h: "CHR ''%'' \<notin> set ''/dev/xvdb''" by simp
  show ?thesis
    using templateFSCmd_expands[OF h, of "''mkfs.ext4 -m0 %''"]
      templateFSCmd_expands[OF h, of "''%%%''"]
    by simp
qed

text \<open>
  The claim as the specification states it fails: the template \<^verbatim>\<open>echo %% %\<close> with the
  device \<^verbatim>\<open>/dev/xvdb\<close> gives \<^verbatim>\<open>echo %% /dev/xvdb\<close>, not \<^verbatim>\<open>echo % /dev/xvdb\<close>.
\<close>

theorem templateFSCmd_keeps_doubled_percent:
  "templateFSCmd ''echo %% %'' ''/dev/xvdb'' = Some ''echo %% /dev/xvdb'' \<and>
   templateFSCmd ''echo %% %'' ''/dev/xvdb'' \<noteq> Some ''echo % /dev/xvdb''"
proof -
  have "templateFSCmd ''echo %% %'' ''/dev/xvdb'' = Some ''echo %% /dev/xvdb''"
    by code_simp
  then show ?thesis by simp
qed

subsection \<open>The synchronizers\<close>

text \<open>
  The poll loop of the delete: a status query that reports the volume as not found ends the
  loop with nil; any other error of the query goes on to the next poll.
\<close>

lemma deletePoll_not_found:
  assumes "DescribeVolumes svc (tr @ [TimeAfter 500, API_DescribeVolumes [volume]]) = Inl (AwsErr ''InvalidVolume.NotFound'')"
  shows "fst (deletePoll (Suc n) volume svc tr) = None"
  using assms by (simp add: getVolumeInfo_def Let_def)

lemma deletePoll_other_error:
  assumes "DescribeVolumes svc (tr @ [TimeAfter 500, API_DescribeVolumes [volume]]) = Inl err"
    and "err \<noteq> AwsErr ''InvalidVolume.NotFound''"
  shows "deletePoll (Suc n) volume svc tr = deletePoll n volume svc (tr @ [TimeAfter 500, API_DescribeVolumes [volume]])"
  using assms by (cases err) (simp_all add: getVolumeInfo_def Let_def)

text \<open>
  Claim C1. The first status query after the delete call is made before the loop, and the
  code returns its error whatever it is. On a service where the deleted volume is gone at
  once, \<^verbatim>\<open>deleteVolumeSynchronously\<close> returns \<^verbatim>\<open>InvalidVolume.NotFound\<close> as its error;
  where the volume is still described once and then gone, the same answer arrives inside
  the loop and the result is nil.
\<close>

theorem deleteVolumeSynchronously_first_query_not_found:
  "deleteVolumeSynchronously ''vol-1'' (vanishingVolume 0) 10000000000 (quietHost 20) [] =
     (Some (AwsErr ''InvalidVolume.NotFound''),
      [API_DeleteVolume ''vol-1'', API_DescribeVolumes [''vol-1'']]) \<and>
   deleteVolumeSynchronously ''vol-1'' (vanishingVolume 1) 10000000000 (quietHost 20) [] =
     (None,
      [API_DeleteVolume ''vol-1'', API_DescribeVolumes [''vol-1''], TimerStarted 10000000000,
       TimeAfter 500, API_DescribeVolumes [''vol-1'']])"
proof
  show "deleteVolumeSynchronously ''vol-1'' (vanishingVolume 0) 10000000000 (quietHost 20) [] =
     (Some (AwsErr ''InvalidVolume.NotFound''),
      [API_DeleteVolume ''vol-1'', API_DescribeVolumes [''vol-1'']])"
    by code_simp
next
  show "deleteVolumeSynchronously ''vol-1'' (vanishingVolume 1) 10000000000 (quietHost 20) [] =
     (None,
      [API_DeleteVolume ''vol-1'', API_DescribeVolumes [''vol-1''], TimerStarted 10000000000,
       TimeAfter 500, API_DescribeVolumes [''vol-1'']])"
    by code_simp
qed

text \<open>
  Claim C4. A poll of \<^verbatim>\<open>attachVolumeSynchronously\<close> in which the device exists and the
  status query fails does not continue: the code reads \<^verbatim>\<open>vol.Attachments\<close> of the nil
  volume before it tests the error, and panics.
\<close>

theorem attachVolumeSynchronously_query_error_panics:
  "attachVolumeSynchronously ''vol-1'' ''i-1'' ''/dev/xvda'' attachingVolume 10000000000
     (quietHost 20) [] =
     (Panics,
      [API_AttachVolume ''/dev/xvda'' ''i-1'' ''vol-1'', TimerStarted 10000000000,
       TimeAfter 100, OS_Stat ''/dev/xvda'', API_DescribeVolumes [''vol-1'']])"
proof -
  have attach: "attachVolume ''vol-1'' ''i-1'' ''/dev/xvda'' attachingVolume [] =
      (Inr \<lparr>Attachment_VolumeId = ''vol-1'', Attachment_State = ''attaching''\<rparr>,
       [API_AttachVolume ''/dev/xvda'' ''i-1'' ''vol-1''])"
    by code_simp
  have polls: "pollsBeforeTimeout (quietHost 20)
      [API_AttachVolume ''/dev/xvda'' ''i-1'' ''vol-1'', TimerStarted 10000000000] = Suc 19"
    by (simp add: quietHost_def)
  have poll: "attachPoll (Suc n) [] \<lparr>Attachment_VolumeId = ''vol-1'', Attachment_State = ''attaching''\<rparr>
      ''/dev/xvda'' attachingVolume (quietHost 20)
      [API_AttachVolume ''/dev/xvda'' ''i-1'' ''vol-1'', TimerStarted 10000000000] =
     (Panics,
      [API_AttachVolume ''/dev/xvda'' ''i-1'' ''vol-1'', TimerStarted 10000000000,
       TimeAfter 100, OS_Stat ''/dev/xvda'', API_DescribeVolumes [''vol-1'']])" for n
    by (simp add: quietHost_def attachingVolume_def getVolumeInfo_def Let_def)
  show ?thesis
    using attach polls poll[of 19]
    by (simp add: attachVolumeSynchronously_def VolumeAttachmentStateAttached_def Let_def)
qed

text \<open>
  A poll in which the device does not exist yet makes no status query and goes on to the
  next poll.
\<close>

lemma attachPoll_device_missing:
  assumes "os_Stat h (tr @ [TimeAfter 100, OS_Stat device]) = Some (Errno ENOENT)"
  shows "attachPoll (Suc n) attachmentState resp device svc h tr =
           attachPoll n attachmentState resp device svc h (tr @ [TimeAfter 100, OS_Stat device])"
  using assms by (simp add: os_IsNotExist_def Let_def)

subsection \<open>Format\<close>

text \<open>
  Claim C10. When every step of \<^verbatim>\<open>Format\<close> up to the command succeeds, the command
  succeeds, and the detach after it fails, \<^verbatim>\<open>Format\<close> returns nil: the error of the detach
  is the last event of the trace, a line of the log, and nothing else.
\<close>

theorem Format_nil_when_detach_fails:
  assumes "getInstanceID h tr = (Inr instanceID, tr1)"
    and "svc = ec2_New (param (Params (Volume do)) ''region'')"
    and "getVolumeWithName (Name (Volume do)) svc tr1 = (Inr awsVolume, tr2)"
    and "getInstanceInfo instanceID svc tr2 = (Inr instance, tr3)"
    and "findFreeBlockDevice (BlockDeviceMappings instance) = Inr device"
    and "attachVolumeSynchronously awsVolume instanceID device svc (Timeout do) h tr3 =
           (Returns (Inr attachment), tr4)"
    and "mkfsVolume (CreateCommand (FSOptions do)) device (Timeout do) h tr4 = Some (None, tr5)"
    and "detachVolumeSynchronously awsVolume instanceID device True svc (Timeout do) h tr5 =
           (Inl derr, tr6)"
  shows "Format do ec2_New h tr =
           Some (Returns None,
             tr6 @ [LogError (ErrorfE ''failed to detach volume after failing to create filesystem: %v'' derr)])"
  using assms by (simp add: Format_def Let_def)

theorem Format_nil_when_detach_fails_witness:
  "Format (testOptions 4294967296) (\<lambda>region. stuckVolume) (quietHost 20) [] =
     Some (Returns None,
       [API_GetMetadata ''instance-id'',
        API_DescribeTags (nameFilters ''test/pithos'') 6,
        API_DescribeInstances [''i-1''],
        API_AttachVolume ''/dev/xvdb'' ''i-1'' ''vol-1'',
        OS_Exec [''/bin/sh'', ''-c'', ''mkfs.ext4 -m0 /dev/xvdb''] 10000000000,
        API_DetachVolume ''vol-1'' ''/dev/xvdb'' True ''i-1'',
        LogError (ErrorfE ''failed to detach volume after failing to create filesystem: %v''
          (AwsErr ''IncorrectState''))])"
proof -
  let ?do = "testOptions 4294967296" and ?h = "quietHost 20"
  let ?t1 = "[API_GetMetadata ''instance-id'']"
  let ?t2 = "?t1 @ [API_DescribeTags (nameFilters ''test/pithos'') 6]"
  let ?t3 = "?t2 @ [API_DescribeInstances [''i-1'']]"
  let ?t4 = "?t3 @ [API_AttachVolume ''/dev/xvdb'' ''i-1'' ''vol-1'']"
  let ?t5 = "?t4 @ [OS_Exec [''/bin/sh'', ''-c'', ''mkfs.ext4 -m0 /dev/xvdb''] 10000000000]"
  let ?t6 = "?t5 @ [API_DetachVolume ''vol-1'' ''/dev/xvdb'' True ''i-1'']"
  have n: "Name (Volume ?do) = ''test/pithos''" "Timeout ?do = 10000000000"
    "CreateCommand (FSOptions ?do) = ''mkfs.ext4 -m0 %''"
    by (simp_all add: testOptions_def namedOptions_def)
  have a1: "getInstanceID ?h [] = (Inr ''i-1'', ?t1)"
    by code_simp
  have a2: "stuckVolume = (\<lambda>region. stuckVolume) (param (Params (Volume ?do)) ''region'')"
    by simp
  have a3: "getVolumeWithName (Name (Volume ?do)) stuckVolume ?t1 = (Inr ''vol-1'', ?t2)"
    unfolding n by code_simp
  have a4: "getInstanceInfo ''i-1'' stuckVolume ?t2 = (Inr \<lparr>BlockDeviceMappings = oneMapping\<rparr>, ?t3)"
    by code_simp
  have a5: "findFreeBlockDevice (BlockDeviceMappings \<lparr>BlockDeviceMappings = oneMapping\<rparr>) = Inr ''/dev/xvdb''"
    by code_simp
  have a6: "attachVolumeSynchronously ''vol-1'' ''i-1'' ''/dev/xvdb'' stuckVolume (Timeout ?do) ?h ?t3 =
      (Returns (Inr \<lparr>Attachment_VolumeId = ''vol-1'', Attachment_State = ''attached''\<rparr>), ?t4)"
    unfolding n by code_simp
  have a7: "mkfsVolume (CreateCommand (FSOptions ?do)) ''/dev/xvdb'' (Timeout ?do) ?h ?t4 = Some (None, ?t5)"
    unfolding n by code_simp
  have a8: "detachVolumeSynchronously ''vol-1'' ''i-1'' ''/dev/xvdb'' True stuckVolume (Timeout ?do) ?h ?t5 =
      (Inl (AwsErr ''IncorrectState''), ?t6)"
    unfolding n by code_simp
  show ?thesis
    using Format_nil_when_detach_fails[OF a1 a2 a3 a4 a5 a6 a7 a8] by simp
qed


subsection \<open>Unmount\<close>

text \<open>
  Three failed unmounts end the loop with the combined error, and no detach is tried; an
  unmount that succeeds or fails with \<^verbatim>\<open>ENOENT\<close> or \<^verbatim>\<open>EINVAL\<close>, followed by a removal
  that does not fail and a detach that succeeds, returns nil.
\<close>

lemma unmountRetry_exhausted:
  assumes "\<forall>tr. unix_Unmount h tr = Some e" and "e \<noteq> Errno ENOENT" and "e \<noteq> Errno EINVAL"
  shows "unmountRetry 0 None volumeDir awsVolume instanceID device svc timeout h tr =
     Some (Returns (Some (Combine (Errorf ''Failed to umount after 3 retries'')
                            (ErrorfE ''Failed to unmount %q (retrying): %v'' e))),
           tr @ [OS_Unmount volumeDir, LogError (ErrorfE ''Failed to unmount %q (retrying): %v'' e), Sleep 100,
                 OS_Unmount volumeDir, LogError (ErrorfE ''Failed to unmount %q (retrying): %v'' e), Sleep 100,
                 OS_Unmount volumeDir, LogError (ErrorfE ''Failed to unmount %q (retrying): %v'' e), Sleep 100])"
proof -
  let ?E = "ErrorfE ''Failed to unmount %q (retrying): %v'' e"
  have f: "unmountFailure (unix_Unmount h t) = Some e" for t
    using assms by (simp add: unmountFailure_def)
  have last: "unmountRetry (Suc (Suc (Suc 0))) (Some l) volumeDir awsVolume instanceID device svc timeout h t =
      Some (Returns (Some (Combine (Errorf ''Failed to umount after 3 retries'') l)), t)" for l t
    by (subst unmountRetry.simps) simp
  have step: "unmountRetry retries l volumeDir awsVolume instanceID device svc timeout h t =
      unmountRetry (Suc retries) (Some ?E) volumeDir awsVolume instanceID device svc timeout h
        (t @ [OS_Unmount volumeDir, LogError ?E, Sleep 100])" if "retries < 3" for retries l t
    using that by (subst unmountRetry.simps) (simp add: f)
  let ?t1 = "tr @ [OS_Unmount volumeDir, LogError ?E, Sleep 100]"
  let ?t2 = "?t1 @ [OS_Unmount volumeDir, LogError ?E, Sleep 100]"
  let ?t3 = "?t2 @ [OS_Unmount volumeDir, LogError ?E, Sleep 100]"
  have s0: "unmountRetry 0 None volumeDir awsVolume instanceID device svc timeout h tr =
      unmountRetry (Suc 0) (Some ?E) volumeDir awsVolume instanceID device svc timeout h ?t1"
    by (rule step) simp
  have s1: "unmountRetry (Suc 0) (Some ?E) volumeDir awsVolume instanceID device svc timeout h ?t1 =
      unmountRetry (Suc (Suc 0)) (Some ?E) volumeDir awsVolume instanceID device svc timeout h ?t2"
    by (rule step) simp
  have s2: "unmountRetry (Suc (Suc 0)) (Some ?E) volumeDir awsVolume instanceID device svc timeout h ?t2 =
      unmountRetry (Suc (Suc (Suc 0))) (Some ?E) volumeDir awsVolume instanceID device svc timeout h ?t3"
    by (rule step) simp
  show ?thesis
    unfolding s0 s1 s2 last by simp
qed

lemma unmountRetry_tolerated:
  assumes "retries < 3"
    and "unix_Unmount h (tr @ [OS_Unmount volumeDir]) = None \<or>
         unix_Unmount h (tr @ [OS_Unmount volumeDir]) = Some (Errno ENOENT) \<or>
         unix_Unmount h (tr @ [OS_Unmount volumeDir]) = Some (Errno EINVAL)"
    and "removeFailure (os_Remove h (tr @ [OS_Unmount volumeDir, OS_Remove volumeDir])) = None"
    and "detachVolumeSynchronously awsVolume instanceID device False svc timeout h
           (tr @ [OS_Unmount volumeDir, OS_Remove volumeDir]) = (Inr vol, tr')"
  shows "unmountRetry retries lastErr volumeDir awsVolume instanceID device svc timeout h tr =
           Some (Returns None, tr')"
  using assms by (subst unmountRetry.simps) (auto simp: unmountFailure_def)

text \<open>
  When the removal of the directory fails every time, the loop takes the second
  \<^verbatim>\<open>goto retry\<close> for ever.
\<close>

lemma unmountRetry_removal_never_succeeds:
  assumes "retries < 3"
  shows "unmountRetry retries lastErr volumeDir awsVolume instanceID device svc timeout (busyDirHost None) tr = None"
proof -
  have "\<not> (retries < 3 \<and> h = busyDirHost None)"
    if run: "unmountRetry retries lastErr volumeDir awsVolume instanceID device svc timeout h tr = Some y"
    for h y
  proof (rule unmountRetry.raw_induct[where P = "\<lambda>retries lastErr volumeDir awsVolume instanceID
      device svc timeout h tr y. \<not> (retries < 3 \<and> h = busyDirHost None)", OF _ run], goal_cases)
    case (1 f retries lastErr volumeDir awsVolume instanceID device svc timeout h tr y)
    note IH = "1"(1) and body = "1"(2)
    show "\<not> (retries < 3 \<and> h = busyDirHost None)"
    proof
      assume a: "retries < 3 \<and> h = busyDirHost None"
      then have "f retries lastErr volumeDir awsVolume instanceID device svc timeout h
          (tr @ [OS_Unmount volumeDir, OS_Remove volumeDir,
                 LogError (ErrorfE ''error removing %q directory: %v'' (Errno ENOTEMPTY))]) = Some y"
        using body
        by (simp add: busyDirHost_def unmountFailure_def removeFailure_def os_IsNotExist_def
            ENOTEMPTY_def ENOENT_def)
      from IH[OF this] a show False by simp
    qed
  qed
  then show ?thesis using assms
    by (cases "unmountRetry retries lastErr volumeDir awsVolume instanceID device svc timeout (busyDirHost None) tr") auto
qed

text \<open>
  Claim C3. The retries of \<^verbatim>\<open>Unmount\<close> are not bounded by 3: a failed removal of the mount
  directory jumps back to the unmount without counting a retry and without a sleep. On a
  host where every unmount succeeds and the removal fails three times, the unmount is tried
  four times before the detach; where the removal fails every time, \<^verbatim>\<open>Unmount\<close> never
  returns.
\<close>

theorem Unmount_removal_retry_unbounded:
  "Unmount ebsDriver (testOptions 4294967296) (\<lambda>region. attachedVolume)
     (busyDirHost (Some 3)) [] = Some (Returns None, fourUnmounts) \<and>
   countUnmounts fourUnmounts = 4 \<and>
   Unmount ebsDriver (testOptions 4294967296) (\<lambda>region. attachedVolume) (busyDirHost None) [] = None"
proof -
  have a: "Unmount ebsDriver (testOptions 4294967296) (\<lambda>region. attachedVolume)
     (busyDirHost (Some 3)) [] = Some (Returns None, fourUnmounts)"
    by code_simp
  have c: "countUnmounts fourUnmounts = 4"
    by code_simp
  have i: "getInstanceID (busyDirHost None) [] = (Inr ''i-1'', [API_GetMetadata ''instance-id''])"
    by code_simp
  have n: "internalName (Name (Volume (testOptions 4294967296))) = Inr ''test.pithos''"
    by code_simp
  have m: "mkMountPath ebsDriver ''test.pithos'' = Inr ''/mnt/ebs/test.pithos''"
    by code_simp
  have v: "getVolumeWithName (Name (Volume (testOptions 4294967296))) attachedVolume
      [API_GetMetadata ''instance-id''] =
      (Inr ''vol-1'', [API_GetMetadata ''instance-id'', API_DescribeTags (nameFilters ''test/pithos'') 6])"
    by code_simp
  have g: "getInstanceInfo ''i-1'' attachedVolume
      [API_GetMetadata ''instance-id'', API_DescribeTags (nameFilters ''test/pithos'') 6] =
      (Inr \<lparr>BlockDeviceMappings = [\<lparr>DeviceName = ''/dev/xvdb'', Ebs_VolumeId = ''vol-1''\<rparr>]\<rparr>,
       [API_GetMetadata ''instance-id'', API_DescribeTags (nameFilters ''test/pithos'') 6,
        API_DescribeInstances [''i-1'']])"
    by code_simp
  have b: "Unmount ebsDriver (testOptions 4294967296) (\<lambda>region. attachedVolume) (busyDirHost None) [] = None"
    by (simp add: Unmount_def i n m v g Let_def unmountRetry_removal_never_succeeds)
  show ?thesis using a b c by simp
qed

subsection \<open>Names and mount paths\<close>


































end
